theory Spec2Isabelle
  imports Complex_Main "HOL-Library.AList"
begin

section \<open>Python values\<close>

text \<open>
  The values that \<^verbatim>\<open>response.json()\<close> produces, and that the client passes on:
  \<^verbatim>\<open>None\<close>, booleans, integers, strings, lists and dictionaries. A dictionary is
  kept as an association list with distinct keys in insertion order; strings are byte
  strings (UTF-8). JSON numbers are integers here: the only number the client computes
  with is \<^verbatim>\<open>expires_in\<close>, a count of seconds.
\<close>

datatype json =
    JNull
  | JBool bool
  | JInt int
  | JStr string
  | JList "json list"
  | JDict "(string \<times> json) list"

text \<open>
  The exceptions the client can end with. \<open>ConnectionError\<close> carries the three
  arguments of \<^verbatim>\<open>"Request failed ({} {}) - {}".format(status_code, reason, message)\<close>;
  \<open>ValueError\<close> is the precondition failure of \<^verbatim>\<open>get_device\<close>; the others are the
  exceptions Python raises by itself on a value of the wrong shape or size. \<open>LibraryError\<close>
  stands for an exception raised inside a library call (a transport failure, a prompt
  that cannot be read, an undecodable password).
\<close>

datatype error =
    ValueError
  | ConnectionError int string json
  | JSONDecodeError
  | AttributeError
  | TypeError
  | KeyError
  | IndexError
  | OverflowError
  | LibraryError string

text \<open>Python's truth value of an object, as \<^verbatim>\<open>if x\<close> and \<^verbatim>\<open>x or y\<close> test it.\<close>

fun truthy :: "json \<Rightarrow> bool" where
  "truthy JNull = False"
| "truthy (JBool b) = b"
| "truthy (JInt n) = (n \<noteq> 0)"
| "truthy (JStr s) = (s \<noteq> [])"
| "truthy (JList xs) = (xs \<noteq> [])"
| "truthy (JDict kv) = (kv \<noteq> [])"

text \<open>An optional string argument (\<^verbatim>\<open>str = None\<close>) is true when given and not empty.\<close>

fun truthy_str :: "string option \<Rightarrow> bool" where
  "truthy_str None = False"
| "truthy_str (Some s) = (s \<noteq> [])"

text \<open>\<^verbatim>\<open>d.get(k)\<close> and \<^verbatim>\<open>d.get(k, default)\<close> on a dictionary.\<close>

definition dict_get_default :: "(string \<times> json) list \<Rightarrow> string \<Rightarrow> json \<Rightarrow> json" where
  "dict_get_default kv k d = (case map_of kv k of None \<Rightarrow> d | Some v \<Rightarrow> v)"

definition dict_get :: "(string \<times> json) list \<Rightarrow> string \<Rightarrow> json" where
  "dict_get kv k = dict_get_default kv k JNull"

text \<open>
  \<^verbatim>\<open>x[k]\<close> with a string key: a missing key raises KeyError; a list, a string and
  the scalars do not take a string subscript (TypeError).
\<close>

fun subscript :: "json \<Rightarrow> string \<Rightarrow> error + json" where
  "subscript (JDict kv) k = (case map_of kv k of None \<Rightarrow> Inl KeyError | Some v \<Rightarrow> Inr v)"
| "subscript _ k = Inl TypeError"

text \<open>
  The characters of a string. Python indexes and iterates a string by code point; in
  the UTF-8 bytes a code point is a byte that is not a continuation byte
  (\<^verbatim>\<open>10xxxxxx\<close>) and the continuation bytes that follow it.
\<close>

definition continuation_byte :: "char \<Rightarrow> bool" where
  "continuation_byte c = (128 \<le> (of_char c :: nat) \<and> (of_char c :: nat) < 192)"

function code_points :: "string \<Rightarrow> string list" where
  "code_points [] = []"
| "code_points (c # cs) =
     (c # takeWhile continuation_byte cs) # code_points (dropWhile continuation_byte cs)"
  by pat_completeness auto
termination
  by (relation "measure length") (auto simp: le_imp_less_Suc length_dropWhile_le)

text \<open>
  \<^verbatim>\<open>x[0]\<close>: the first element of a list (IndexError when empty), the first character
  of a string; a dictionary with string keys has no key \<^verbatim>\<open>0\<close> (KeyError); the scalars
  are not subscriptable.
\<close>

fun first_item :: "json \<Rightarrow> error + json" where
  "first_item (JList []) = Inl IndexError"
| "first_item (JList (x # xs)) = Inr x"
| "first_item (JStr []) = Inl IndexError"
| "first_item (JStr (c # cs)) = Inr (JStr (c # takeWhile continuation_byte cs))"
| "first_item (JDict kv) = Inl KeyError"
| "first_item _ = Inl TypeError"

text \<open>
  What \<^verbatim>\<open>data.extend(x)\<close> appends: the elements of a list, the characters of a string,
  the keys of a dictionary; \<^verbatim>\<open>None\<close>, booleans and integers are not iterable.
\<close>

fun py_iter :: "json \<Rightarrow> error + json list" where
  "py_iter (JList xs) = Inr xs"
| "py_iter (JStr cs) = Inr (map JStr (code_points cs))"
| "py_iter (JDict kv) = Inr (map (\<lambda>(k, v). JStr k) kv)"
| "py_iter _ = Inl TypeError"

text \<open>\<^verbatim>\<open>sub in s\<close> on strings.\<close>

fun contains :: "string \<Rightarrow> string \<Rightarrow> bool" where
  "contains sub [] = (sub = [])"
| "contains sub (c # cs) = (take (length sub) (c # cs) = sub \<or> contains sub cs)"

text \<open>
  \<^verbatim>\<open>s.split(sep)\<close> for a separator that is not empty: \<open>split_from sep piece rest\<close>
  scans \<open>rest\<close> with the current piece accumulated in reverse.
\<close>

fun split_from :: "string \<Rightarrow> string \<Rightarrow> string \<Rightarrow> string list" where
  "split_from sep piece [] = [rev piece]"
| "split_from sep piece (c # cs) =
     (if take (length sep) (c # cs) = sep
      then rev piece # split_from sep [] (drop (length sep - 1) cs)
      else split_from sep (c # piece) cs)"

definition split :: "string \<Rightarrow> string \<Rightarrow> string list" where
  "split s sep = split_from sep [] s"

section \<open>Requests, responses and the environment\<close>

datatype http_method = GET | POST | DELETE

text \<open>
  A header value is either a literal or \<^verbatim>\<open>f"Bearer {token}"\<close>; a query parameter is a
  string or an integer. The dictionaries \<^verbatim>\<open>headers\<close> and \<^verbatim>\<open>params\<close> are association
  lists in the order of the dictionary display, a value \<^verbatim>\<open>None\<close> being \<open>None\<close>: the
  HTTP library sends the entries whose value is not \<^verbatim>\<open>None\<close>.
\<close>

datatype header_value = Plain string | Bearer json

datatype param_value = PStr string | PInt int

type_synonym headers = "(string \<times> header_value option) list"

type_synonym params = "(string \<times> param_value option) list"

record request =
  meth :: http_method
  url :: string
  req_headers :: headers
  req_params :: params
  req_data :: "(string \<times> string) list"

text \<open>
  A response: \<open>body\<close> is what \<^verbatim>\<open>response.json()\<close> returns, \<open>None\<close> when the body is
  not JSON (the call raises); \<open>content_type\<close> is \<^verbatim>\<open>response.headers.get("Content-Type")\<close>.
\<close>

record response =
  status_code :: int
  reason :: string
  content_type :: "string option"
  body :: "json option"

text \<open>
  Everything outside the client, over a world \<open>'w\<close> that the client cannot see into:
  the clock (\<^verbatim>\<open>time()\<close>, a float, which is a real number here), the network (\<^verbatim>\<open>requests.get\<close>, \<^verbatim>\<open>requests.post\<close>,
  \<^verbatim>\<open>requests.delete\<close>, which answer or raise and change the world), the credentials
  that \<^verbatim>\<open>_get_config()\<close> resolves from the settings, the process environment or a
  prompt, and the library functions \<^verbatim>\<open>quote_plus\<close>, \<^verbatim>\<open>urljoin\<close> and
  \<^verbatim>\<open>b64decode(s).decode("utf-8")\<close>. The float arithmetic of \<^verbatim>\<open>time() + x\<close> with an
  integer \<open>x\<close> is taken from the environment too: \<open>float_of_int\<close> is the conversion
  of \<open>x\<close> to a float, which raises OverflowError on an integer too large for a
  float and rounds one that has no float of its own, and \<open>float_add\<close> is the
  addition of floats, which rounds the sum.
\<close>

record 'w env =
  now :: "'w \<Rightarrow> real"
  http :: "request \<Rightarrow> 'w \<Rightarrow> (error + response) \<times> 'w"
  get_config :: "'w \<Rightarrow> (error + string \<times> string \<times> string) \<times> 'w"
  quote_plus :: "string \<Rightarrow> string"
  urljoin :: "string \<Rightarrow> string \<Rightarrow> string"
  b64decode_utf8 :: "string \<Rightarrow> error + string"
  float_of_int :: "int \<Rightarrow> error + real"
  float_add :: "real \<Rightarrow> real \<Rightarrow> real"

text \<open>
  The module's state: the global \<^verbatim>\<open>_token_cache\<close>, a dictionary with the keys
  \<^verbatim>\<open>"jwt"\<close> and \<^verbatim>\<open>"exp"\<close> (each present or not), the world, and the requests sent
  so far, oldest first.
\<close>

record token_cache =
  cache_jwt :: "json option"
  cache_exp :: "real option"

record 'w state =
  cache :: token_cache
  world :: 'w
  sent :: "request list"

definition send :: "'w env \<Rightarrow> request \<Rightarrow> 'w state \<Rightarrow> (error + response) \<times> 'w state" where
  "send env q s =
     (case http env q (world s) of
        (r, w') \<Rightarrow> (r, s\<lparr>world := w', sent := sent s @ [q]\<rparr>))"

section \<open>core.py\<close>

definition CLOCK_SKEW_SECONDS :: real where
  "CLOCK_SKEW_SECONDS = 5 * 60"

text \<open>
  The right operand of \<^verbatim>\<open>time() + data["expires_in"]\<close> as a float: an integer is
  converted (a boolean is the integer 0 or 1), which may raise OverflowError; anything
  else cannot be added to a float (TypeError).
\<close>

fun float_operand :: "'w env \<Rightarrow> json \<Rightarrow> error + real" where
  "float_operand env (JInt n) = float_of_int env n"
| "float_operand env (JBool b) = float_of_int env (if b then 1 else 0)"
| "float_operand env _ = Inl TypeError"

text \<open>
  Lines 44 to 74 of \<^verbatim>\<open>get_token\<close>: the token request (\<open>token_request\<close> is the
  URL and the form of lines 46 to 52). The cache is written in two
  assignments, \<^verbatim>\<open>"jwt"\<close> first; the clock is read between them, and the second
  assignment is not reached when \<^verbatim>\<open>expires_in\<close> is missing or cannot be added to the
  clock: then the cache keeps the new token with the expiry it had.
\<close>

definition token_request :: "'w env \<Rightarrow> string \<Rightarrow> string \<Rightarrow> string \<Rightarrow> request" where
  "token_request env tenant_id client_id client_secret =
     \<lparr>meth = POST,
      url = ''https://login.microsoftonline.com/'' @ quote_plus env tenant_id
              @ ''/oauth2/v2.0/token'',
      req_headers = [],
      req_params = [],
      req_data =
        [(''grant_type'', ''client_credentials''),
         (''scope'', ''https://graph.microsoft.com/.default''),
         (''client_id'', client_id),
         (''client_secret'', client_secret)]\<rparr>"

definition request_token :: "'w env \<Rightarrow> 'w state \<Rightarrow> (error + json) \<times> 'w state" where
  "request_token env s =
     (case get_config env (world s) of
        (Inl e, w1) \<Rightarrow> (Inl e, s\<lparr>world := w1\<rparr>)
      | (Inr (tenant_id, client_id, client_secret), w1) \<Rightarrow>
          (case send env (token_request env tenant_id client_id client_secret)
                  (s\<lparr>world := w1\<rparr>) of
             (Inl e, s2) \<Rightarrow> (Inl e, s2)
           | (Inr resp, s2) \<Rightarrow>
               if status_code resp \<noteq> 200 then
                 (case body resp of
                    None \<Rightarrow> (Inl JSONDecodeError, s2)
                  | Some (JDict kv) \<Rightarrow>
                      (Inl (ConnectionError (status_code resp) (reason resp)
                             (dict_get kv ''error_description'')), s2)
                  | Some _ \<Rightarrow> (Inl AttributeError, s2))
               else
                 (case body resp of
                    None \<Rightarrow> (Inl JSONDecodeError, s2)
                  | Some data \<Rightarrow>
                      (case subscript data ''access_token'' of
                         Inl e \<Rightarrow> (Inl e, s2)
                       | Inr token \<Rightarrow>
                           let s3 = s2\<lparr>cache := (cache s2)\<lparr>cache_jwt := Some token\<rparr>\<rparr>;
                               t = now env (world s3)
                           in (case subscript data ''expires_in'' of
                                 Inl e \<Rightarrow> (Inl e, s3)
                               | Inr expires_in \<Rightarrow>
                                   (case float_operand env expires_in of
                                      Inl e \<Rightarrow> (Inl e, s3)
                                    | Inr n \<Rightarrow>
                                        (Inr token,
                                         s3\<lparr>cache := (cache s3)
                                              \<lparr>cache_exp := Some (float_add env t n)\<rparr>\<rparr>)))))))"

text \<open>
  \<^verbatim>\<open>get_token\<close>: a cache that is not empty is read at \<^verbatim>\<open>"exp"\<close> (KeyError when the
  key is missing), then the clock is read; a token that is still good for
  \<open>CLOCK_SKEW_SECONDS\<close> is returned, otherwise a new one is requested.
\<close>

definition get_token :: "'w env \<Rightarrow> 'w state \<Rightarrow> (error + json) \<times> 'w state" where
  "get_token env s =
     (if cache_jwt (cache s) \<noteq> None \<or> cache_exp (cache s) \<noteq> None then
        (case cache_exp (cache s) of
           None \<Rightarrow> (Inl KeyError, s)
         | Some e \<Rightarrow>
             if e \<ge> now env (world s) + CLOCK_SKEW_SECONDS then
               (case cache_jwt (cache s) of
                  None \<Rightarrow> (Inl KeyError, s)
                | Some token \<Rightarrow> (Inr token, s))
             else request_token env s)
      else request_token env s)"

text \<open>\<^verbatim>\<open>ensure_list\<close>: a string becomes a one-element list, a list is returned as it is.\<close>

datatype str_or_list = Str string | Lst "string list"

fun ensure_list :: "str_or_list \<Rightarrow> string list" where
  "ensure_list (Str s) = [s]"
| "ensure_list (Lst xs) = xs"

section \<open>devices.py\<close>

text \<open>
  The OData arguments that \<^verbatim>\<open>get_device\<close> and \<^verbatim>\<open>list_owned_devices\<close> share:
  \<^verbatim>\<open>select\<close>, \<^verbatim>\<open>filter\<close>, \<^verbatim>\<open>search\<close>, \<^verbatim>\<open>orderby\<close>, \<^verbatim>\<open>top\<close> and \<^verbatim>\<open>all\<close>, with
  \<open>None\<close> for an argument left at its default \<^verbatim>\<open>None\<close>.
\<close>

record odata_args =
  select_arg :: "str_or_list option"
  filter_arg :: "string option"
  search_arg :: "string option"
  orderby_arg :: "str_or_list option"
  top_arg :: "int option"
  all_arg :: bool

fun truthy_arg :: "str_or_list option \<Rightarrow> bool" where
  "truthy_arg None = False"
| "truthy_arg (Some (Str s)) = (s \<noteq> [])"
| "truthy_arg (Some (Lst xs)) = (xs \<noteq> [])"

text \<open>\<^verbatim>\<open>sep.join(xs)\<close>.\<close>

fun join :: "string \<Rightarrow> string list \<Rightarrow> string" where
  "join sep [] = []"
| "join sep [x] = x"
| "join sep (x # y # ys) = x @ sep @ join sep (y # ys)"

text \<open>\<^verbatim>\<open>",".join(ensure_list(x)) if x else None\<close>.\<close>

fun joined :: "str_or_list option \<Rightarrow> param_value option" where
  "joined None = None"
| "joined (Some x) = (if truthy_arg (Some x) then Some (PStr (join '','' (ensure_list x))) else None)"

text \<open>\<^verbatim>\<open>f'"{search}"' if search else None\<close>.\<close>

fun quoted :: "string option \<Rightarrow> param_value option" where
  "quoted None = None"
| "quoted (Some s) = (if s \<noteq> [] then Some (PStr ([CHR 0x22] @ s @ [CHR 0x22])) else None)"

definition MAX_PAGE_SIZE :: int where
  "MAX_PAGE_SIZE = 999"

text \<open>\<^verbatim>\<open>filter or search or orderby\<close>, where it is tested.\<close>

definition advanced_query :: "odata_args \<Rightarrow> bool" where
  "advanced_query a =
     (truthy_str (filter_arg a) \<or> truthy_str (search_arg a) \<or> truthy_arg (orderby_arg a))"

text \<open>
  The dictionaries \<^verbatim>\<open>headers\<close> and \<^verbatim>\<open>params\<close>, which the two functions build by the
  same text (lines 48 to 59 and 165 to 176).
\<close>

definition query_headers :: "json \<Rightarrow> odata_args \<Rightarrow> headers" where
  "query_headers token a =
     [(''Authorization'', Some (Bearer token)),
      (''ConsistencyLevel'', if advanced_query a then Some (Plain ''eventual'') else None)]"

definition query_params :: "odata_args \<Rightarrow> params" where
  "query_params a =
     [(''$select'', joined (select_arg a)),
      (''$filter'', map_option PStr (filter_arg a)),
      (''$search'', quoted (search_arg a)),
      (''$orderby'', joined (orderby_arg a)),
      (''$top'',
         (case top_arg a of
            Some n \<Rightarrow> Some (PInt n)
          | None \<Rightarrow> if all_arg a then Some (PInt MAX_PAGE_SIZE) else None)),
      (''$count'', if advanced_query a then Some (PStr ''true'') else None)]"

text \<open>
  The error of a failed request (lines 71 to 77, and the same text in the other
  functions): \<^verbatim>\<open>response.json().get("error", {}).get("message")\<close> needs a JSON
  object whose member \<^verbatim>\<open>"error"\<close>, when there is one, is an object too.
\<close>

definition request_failed :: "response \<Rightarrow> error" where
  "request_failed resp =
     (case body resp of
        None \<Rightarrow> JSONDecodeError
      | Some (JDict kv) \<Rightarrow>
          (case dict_get_default kv ''error'' (JDict []) of
             JDict err \<Rightarrow>
               ConnectionError (status_code resp) (reason resp) (dict_get err ''message'')
           | _ \<Rightarrow> AttributeError)
      | Some _ \<Rightarrow> AttributeError)"

text \<open>
  \<^verbatim>\<open>next_link.split("$skiptoken=")[1]\<close>, for a link that is true: only a string has
  \<^verbatim>\<open>split\<close>, and element 1 is there only when the separator occurs.
\<close>

definition skiptoken :: "json \<Rightarrow> error + string" where
  "skiptoken next_link =
     (case next_link of
        JStr link \<Rightarrow>
          (case split link ''$skiptoken='' of
             _ # token # _ \<Rightarrow> Inr token
           | _ \<Rightarrow> Inl IndexError)
      | _ \<Rightarrow> Inl AttributeError)"

text \<open>
  One turn of \<^verbatim>\<open>while True\<close> (lines 66 to 93 and 183 to 210): it ends in the next
  turn with the new \<^verbatim>\<open>params\<close> and \<^verbatim>\<open>data\<close>, in \<^verbatim>\<open>break\<close>, or in an exception. The
  two loops differ in the default of \<^verbatim>\<open>.get("value", ...)\<close> only, which is the
  argument \<open>dflt\<close>: \<^verbatim>\<open>[response.json()]\<close> in \<^verbatim>\<open>get_device\<close>, \<^verbatim>\<open>None\<close> in
  \<^verbatim>\<open>list_owned_devices\<close>. The counters kept for the log are left out.
\<close>

datatype 'w turn =
    Again params "json list" "'w state"
  | Break "json list" "'w state"
  | Raise error "'w state"

definition page_request :: "string \<Rightarrow> headers \<Rightarrow> params \<Rightarrow> request" where
  "page_request u hs ps =
     \<lparr>meth = GET, url = u, req_headers = hs, req_params = ps, req_data = []\<rparr>"

definition page_turn ::
  "'w env \<Rightarrow> (json \<Rightarrow> json) \<Rightarrow> string \<Rightarrow> headers \<Rightarrow> bool \<Rightarrow> int option \<Rightarrow>
     params \<Rightarrow> json list \<Rightarrow> 'w state \<Rightarrow> 'w turn" where
  "page_turn env dflt u hs all' top' ps data s =
     (case send env (page_request u hs ps) s of
        (Inl e, s1) \<Rightarrow> Raise e s1
      | (Inr resp, s1) \<Rightarrow>
          if status_code resp \<noteq> 200 then Raise (request_failed resp) s1
          else
            (case body resp of
               None \<Rightarrow> Raise JSONDecodeError s1
             | Some (JDict kv) \<Rightarrow>
                 (case py_iter (dict_get_default kv ''value'' (dflt (JDict kv))) of
                    Inl e \<Rightarrow> Raise e s1
                  | Inr page \<Rightarrow>
                      let next_link = dict_get kv ''@odata.nextLink'' in
                      if truthy next_link \<and> (all' \<and> top' = None) then
                        (case skiptoken next_link of
                           Inl e \<Rightarrow> Raise e s1
                         | Inr token \<Rightarrow>
                             Again (AList.update ''$skiptoken'' (Some (PStr token)) ps)
                               (data @ page) s1)
                      else Break (data @ page) s1)
             | Some _ \<Rightarrow> Raise AttributeError s1))"

text \<open>
  The loop. It runs for as long as the server sends continuation links, so it is a
  partial function: \<open>None\<close> is a loop that never ends.
\<close>

partial_function (option) page_loop ::
  "'w env \<Rightarrow> (json \<Rightarrow> json) \<Rightarrow> string \<Rightarrow> headers \<Rightarrow> bool \<Rightarrow> int option \<Rightarrow>
     params \<Rightarrow> json list \<Rightarrow> 'w state \<Rightarrow> ((error + json list) \<times> 'w state) option" where
  "page_loop env dflt u hs all' top' ps data s =
     (case page_turn env dflt u hs all' top' ps data s of
        Again ps' data' s' \<Rightarrow> page_loop env dflt u hs all' top' ps' data' s'
      | Break data' s' \<Rightarrow> Some (Inr data', s')
      | Raise e s' \<Rightarrow> Some (Inl e, s'))"

text \<open>
  \<^verbatim>\<open>get_device\<close>. The precondition is checked first; the URL is built (line 47,
  \<open>device_url\<close>), then the token is fetched, then the loop runs from \<^verbatim>\<open>data = []\<close>;
  with a \<^verbatim>\<open>device_id\<close> the result is \<^verbatim>\<open>data[0]\<close>, otherwise the list.
\<close>

definition device_url :: "'w env \<Rightarrow> string option \<Rightarrow> string" where
  "device_url env device_id =
     (case device_id of
        None \<Rightarrow> ''https://graph.microsoft.com/v1.0/devices''
      | Some d \<Rightarrow>
          if d \<noteq> [] then
            urljoin env ''https://graph.microsoft.com/v1.0/devices/'' (quote_plus env d)
          else ''https://graph.microsoft.com/v1.0/devices'')"

definition get_device ::
  "'w env \<Rightarrow> string option \<Rightarrow> odata_args \<Rightarrow> 'w state \<Rightarrow> ((error + json) \<times> 'w state) option" where
  "get_device env device_id a s =
     (if truthy_str device_id \<and> (truthy_str (filter_arg a) \<or> truthy_str (search_arg a))
      then Some (Inl ValueError, s)
      else
        (case get_token env s of
           (Inl e, s1) \<Rightarrow> Some (Inl e, s1)
         | (Inr token, s1) \<Rightarrow>
             (case page_loop env (\<lambda>j. JList [j]) (device_url env device_id)
                     (query_headers token a) (all_arg a) (top_arg a) (query_params a) [] s1 of
                None \<Rightarrow> None
              | Some (Inl e, s2) \<Rightarrow> Some (Inl e, s2)
              | Some (Inr data, s2) \<Rightarrow>
                  if truthy_str device_id then
                    (case data of
                       [] \<Rightarrow> Some (Inl IndexError, s2)
                     | d # _ \<Rightarrow> Some (Inr d, s2))
                  else Some (Inr (JList data), s2))))"

text \<open>\<^verbatim>\<open>list_owned_devices\<close>: the same loop, without a default for \<^verbatim>\<open>"value"\<close>.\<close>

definition owned_devices_url :: "'w env \<Rightarrow> string \<Rightarrow> string" where
  "owned_devices_url env user_id =
     ''https://graph.microsoft.com/v1.0/users/'' @ quote_plus env user_id @ ''/ownedDevices''"

definition list_owned_devices ::
  "'w env \<Rightarrow> string \<Rightarrow> odata_args \<Rightarrow> 'w state \<Rightarrow> ((error + json) \<times> 'w state) option" where
  "list_owned_devices env user_id a s =
     (case get_token env s of
        (Inl e, s1) \<Rightarrow> Some (Inl e, s1)
      | (Inr token, s1) \<Rightarrow>
          (case page_loop env (\<lambda>j. JNull) (owned_devices_url env user_id)
                  (query_headers token a) (all_arg a) (top_arg a) (query_params a) [] s1 of
             None \<Rightarrow> None
           | Some (Inl e, s2) \<Rightarrow> Some (Inl e, s2)
           | Some (Inr data, s2) \<Rightarrow> Some (Inr (JList data), s2)))"

text \<open>\<^verbatim>\<open>delete_device\<close>: the success status is 204.\<close>

definition delete_request :: "'w env \<Rightarrow> string \<Rightarrow> json \<Rightarrow> request" where
  "delete_request env device_id token =
     \<lparr>meth = DELETE,
      url = ''https://graph.microsoft.com/v1.0/devices/'' @ quote_plus env device_id,
      req_headers = [(''Authorization'', Some (Bearer token))],
      req_params = [],
      req_data = []\<rparr>"

definition delete_device :: "'w env \<Rightarrow> string \<Rightarrow> 'w state \<Rightarrow> (error + bool) \<times> 'w state" where
  "delete_device env device_id s =
     (case get_token env s of
        (Inl e, s1) \<Rightarrow> (Inl e, s1)
      | (Inr token, s1) \<Rightarrow>
          (case send env (delete_request env device_id token) s1 of
             (Inl e, s2) \<Rightarrow> (Inl e, s2)
           | (Inr resp, s2) \<Rightarrow>
               if status_code resp \<noteq> 204 then (Inl (request_failed resp), s2)
               else (Inr True, s2)))"

text \<open>
  \<^verbatim>\<open>get_laps_password\<close>: \<open>None\<close> for a response that is not JSON, otherwise the
  decoded \<^verbatim>\<open>passwordBase64\<close> of the first credential, the empty string standing in
  for a missing field.
\<close>

definition laps_request :: "'w env \<Rightarrow> string \<Rightarrow> json \<Rightarrow> request" where
  "laps_request env device_id token =
     \<lparr>meth = GET,
      url = ''https://graph.microsoft.com/v1.0/directory/deviceLocalCredentials/''
              @ quote_plus env device_id,
      req_headers = [(''Authorization'', Some (Bearer token))],
      req_params = [(''$select'', Some (PStr ''credentials''))],
      req_data = []\<rparr>"

definition get_laps_password ::
  "'w env \<Rightarrow> string \<Rightarrow> 'w state \<Rightarrow> (error + string option) \<times> 'w state" where
  "get_laps_password env device_id s =
     (case get_token env s of
        (Inl e, s1) \<Rightarrow> (Inl e, s1)
      | (Inr token, s1) \<Rightarrow>
          (case send env (laps_request env device_id token) s1 of
             (Inl e, s2) \<Rightarrow> (Inl e, s2)
           | (Inr resp, s2) \<Rightarrow>
               if status_code resp \<noteq> 200 then (Inl (request_failed resp), s2)
               else if \<not> contains ''application/json''
                         (case content_type resp of None \<Rightarrow> [] | Some t \<Rightarrow> t)
               then (Inr None, s2)
               else
                 (case body resp of
                    None \<Rightarrow> (Inl JSONDecodeError, s2)
                  | Some j \<Rightarrow>
                      (case subscript j ''credentials'' of
                         Inl e \<Rightarrow> (Inl e, s2)
                       | Inr data \<Rightarrow>
                           (case first_item data of
                              Inl e \<Rightarrow> (Inl e, s2)
                            | Inr (JDict cred) \<Rightarrow>
                                (case dict_get_default cred ''passwordBase64'' (JStr []) of
                                   JStr encoded_pwd \<Rightarrow>
                                     (case b64decode_utf8 env encoded_pwd of
                                        Inl e \<Rightarrow> (Inl e, s2)
                                      | Inr decoded_pwd \<Rightarrow> (Inr (Some decoded_pwd), s2))
                                 | _ \<Rightarrow> (Inl TypeError, s2))
                            | Inr _ \<Rightarrow> (Inl AttributeError, s2))))))"

section \<open>Pages, servers and an example environment\<close>

text \<open>
  What a response carries, read as the loop reads it: the \<^verbatim>\<open>value\<close> array of a
  successful page, the value under \<^verbatim>\<open>@odata.nextLink\<close>, and the cursor of a
  continuation link (a string with a \<^verbatim>\<open>$skiptoken=\<close> in it).
\<close>

definition value_array :: "response \<Rightarrow> json list option" where
  "value_array r =
     (if status_code r = 200 then
        (case body r of
           Some (JDict kv) \<Rightarrow>
             (case map_of kv ''value'' of Some (JList xs) \<Rightarrow> Some xs | _ \<Rightarrow> None)
         | _ \<Rightarrow> None)
      else None)"

definition page_values :: "response \<Rightarrow> json list" where
  "page_values r = (case value_array r of Some xs \<Rightarrow> xs | None \<Rightarrow> [])"

definition next_link :: "response \<Rightarrow> json" where
  "next_link r = (case body r of Some (JDict kv) \<Rightarrow> dict_get kv ''@odata.nextLink'' | _ \<Rightarrow> JNull)"

definition continuation :: "response \<Rightarrow> string option" where
  "continuation r = (case skiptoken (next_link r) of Inr token \<Rightarrow> Some token | Inl e \<Rightarrow> None)"

text \<open>
  The message of a failed response:
  \<open>error_message r = Some m\<close> when the body is a JSON object whose member
  \<^verbatim>\<open>"error"\<close> is an object with the member \<^verbatim>\<open>"message"\<close> \<open>m\<close>.
\<close>

definition error_message :: "response \<Rightarrow> json option" where
  "error_message r =
     (case body r of
        Some (JDict kv) \<Rightarrow>
          (case map_of kv ''error'' of Some (JDict err) \<Rightarrow> map_of err ''message'' | _ \<Rightarrow> None)
      | _ \<Rightarrow> None)"

text \<open>The state a turn of the loop ends in.\<close>

fun turn_state :: "'w turn \<Rightarrow> 'w state" where
  "turn_state (Again ps data s) = s"
| "turn_state (Break data s) = s"
| "turn_state (Raise e s) = s"

text \<open>
  A server that answers the next requests with the responses \<open>rs\<close>, in this order,
  whatever is asked.
\<close>

fun answers :: "'w env \<Rightarrow> 'w \<Rightarrow> response list \<Rightarrow> bool" where
  "answers env w [] = True"
| "answers env w (r # rs) =
     (\<forall>q. fst (http env q w) = Inr r \<and> answers env (snd (http env q w)) rs)"

text \<open>
  A finite sequence of successful pages: each has a \<^verbatim>\<open>value\<close> array, all but the last
  have a continuation link, the last has no link.
\<close>

fun paged :: "response list \<Rightarrow> bool" where
  "paged [] = False"
| "paged [r] = (value_array r \<noteq> None \<and> \<not> truthy (next_link r))"
| "paged (r # rs) = (value_array r \<noteq> None \<and> continuation r \<noteq> None \<and> paged rs)"

text \<open>Pages with continuation links, then a response that is not a 200.\<close>

fun failing :: "response list \<Rightarrow> bool" where
  "failing [] = False"
| "failing [r] = (status_code r \<noteq> 200)"
| "failing (r # rs) = (value_array r \<noteq> None \<and> continuation r \<noteq> None \<and> failing rs)"

text \<open>
  When \<^verbatim>\<open>get_token\<close> has to ask for a token: the cache is empty, or its expiry is
  less than \<open>CLOCK_SKEW_SECONDS\<close> away.
\<close>

definition must_request :: "'w env \<Rightarrow> 'w state \<Rightarrow> bool" where
  "must_request env s =
     (case cache_exp (cache s) of
        None \<Rightarrow> cache_jwt (cache s) = None
      | Some e \<Rightarrow> e < now env (world s) + CLOCK_SKEW_SECONDS)"

text \<open>The value that is sent under a key of \<^verbatim>\<open>headers\<close> or \<^verbatim>\<open>params\<close>, if one is.\<close>

definition emitted :: "(string \<times> 'v option) list \<Rightarrow> string \<Rightarrow> 'v option" where
  "emitted kvs k = (case map_of kvs k of Some (Some v) \<Rightarrow> Some v | _ \<Rightarrow> None)"

text \<open>
  An instance of the password decoder for the examples: standard Base64 with padding
  (RFC 4648), of ASCII text; anything else is an error in this instance.
\<close>

definition b64_value :: "char \<Rightarrow> nat option" where
  "b64_value c =
     (let n = of_char c :: nat in
      if 65 \<le> n \<and> n \<le> 90 then Some (n - 65)
      else if 97 \<le> n \<and> n \<le> 122 then Some (n - 71)
      else if 48 \<le> n \<and> n \<le> 57 then Some (n + 4)
      else if n = 43 then Some 62
      else if n = 47 then Some 63
      else None)"

fun b64_values :: "string \<Rightarrow> nat list option" where
  "b64_values [] = Some []"
| "b64_values (c # cs) =
     (case b64_value c of
        None \<Rightarrow> None
      | Some v \<Rightarrow> map_option ((#) v) (b64_values cs))"

fun b64_bytes :: "nat list \<Rightarrow> nat list option" where
  "b64_bytes (a # b # c # d # rest) =
     map_option
       (\<lambda>bs. (a * 4 + b div 16) # ((b mod 16) * 16 + c div 4) # ((c mod 4) * 64 + d) # bs)
       (b64_bytes rest)"
| "b64_bytes [a, b, c] = Some [a * 4 + b div 16, (b mod 16) * 16 + c div 4]"
| "b64_bytes [a, b] = Some [a * 4 + b div 16]"
| "b64_bytes [a] = None"
| "b64_bytes [] = Some []"

definition b64decode_ascii :: "string \<Rightarrow> error + string" where
  "b64decode_ascii s =
     (let digits = takeWhile (\<lambda>c. c \<noteq> CHR ''='') s;
          padding = dropWhile (\<lambda>c. c \<noteq> CHR ''='') s
      in if length s mod 4 \<noteq> 0 \<or> padding \<notin> set [[], ''='', ''==''] then
           Inl (LibraryError ''binascii.Error'')
         else
           (case Option.bind (b64_values digits) b64_bytes of
              None \<Rightarrow> Inl (LibraryError ''binascii.Error'')
            | Some bytes \<Rightarrow>
                if list_all (\<lambda>b. b < 128) bytes then Inr (map char_of bytes)
                else Inl (LibraryError ''UnicodeDecodeError'')))"

text \<open>
  An example environment. Its world is the list of replies still to come and the
  clock; every request takes the next reply and one second; the credentials are
  fixed; \<^verbatim>\<open>quote_plus\<close> and \<^verbatim>\<open>urljoin\<close> are taken on plain path segments. Its
  float arithmetic is that of the integers up to \<open>2\<^sup>5\<^sup>3\<close>, where conversion and
  addition are exact; this instance refuses a larger integer.
\<close>

type_synonym script = "(error + response) list \<times> real"

definition scripted :: "script env" where
  "scripted =
     \<lparr>now = snd,
      http = (\<lambda>q (replies, t).
                case replies of
                  [] \<Rightarrow> (Inl (LibraryError ''no reply''), ([], t))
                | r # rs \<Rightarrow> (r, (rs, t + 1))),
      get_config = (\<lambda>w. (Inr (''tenant'', ''client'', ''secret''), w)),
      quote_plus = (\<lambda>s. s),
      urljoin = (\<lambda>base ref. base @ ref),
      b64decode_utf8 = b64decode_ascii,
      float_of_int = (\<lambda>n. if \<bar>n\<bar> \<le> 2 ^ 53 then Inr (of_int n) else Inl OverflowError),
      float_add = (\<lambda>a b. a + b)\<rparr>"

definition json_reply :: "int \<Rightarrow> string \<Rightarrow> json \<Rightarrow> response" where
  "json_reply code phrase j =
     \<lparr>status_code = code, reason = phrase,
      content_type = Some ''application/json'', body = Some j\<rparr>"

text \<open>A state whose cached token \<^verbatim>\<open>"abc"\<close> is good until 5000, at time 1000.\<close>

definition ready :: "(error + response) list \<Rightarrow> script state" where
  "ready replies =
     \<lparr>cache = \<lparr>cache_jwt = Some (JStr ''abc''), cache_exp = Some 5000\<rparr>,
      world = (replies, 1000),
      sent = []\<rparr>"

text \<open>Replies and arguments for the examples.\<close>

definition page_reply :: "json list \<Rightarrow> string option \<Rightarrow> response" where
  "page_reply items link =
     json_reply 200 ''OK''
       (JDict ((''value'', JList items) #
          (case link of None \<Rightarrow> [] | Some l \<Rightarrow> [(''@odata.nextLink'', JStr l)])))"

definition three_pages :: "response list" where
  "three_pages =
     [page_reply [JStr ''a'', JStr ''b''] (Some ''https://graph/devices?$skiptoken=X1''),
      page_reply [JStr ''c''] (Some ''https://graph/devices?$skiptoken=X2''),
      page_reply [JStr ''d'', JStr ''e''] None]"

definition error_reply :: "int \<Rightarrow> string \<Rightarrow> string \<Rightarrow> response" where
  "error_reply code phrase msg =
     json_reply code phrase
       (JDict [(''error'', JDict [(''code'', JStr ''Request_Failed''), (''message'', JStr msg)])])"

definition failing_pages :: "response list" where
  "failing_pages =
     [page_reply [JStr ''a'', JStr ''b''] (Some ''https://graph/devices?$skiptoken=X1''),
      page_reply [JStr ''c''] (Some ''https://graph/devices?$skiptoken=X2''),
      error_reply 429 ''Too Many Requests'' ''slow down'']"

definition no_content :: response where
  "no_content = \<lparr>status_code = 204, reason = ''No Content'', content_type = None, body = None\<rparr>"

definition bad_gateway :: response where
  "bad_gateway =
     \<lparr>status_code = 502, reason = ''Bad Gateway'', content_type = Some ''text/html'',
      body = None\<rparr>"

definition laps_reply :: "(string \<times> json) list \<Rightarrow> response" where
  "laps_reply cred =
     json_reply 200 ''OK''
       (JDict [(''id'', JStr ''d1''), (''credentials'', JList [JDict cred])])"

definition no_args :: odata_args where
  "no_args = \<lparr>select_arg = None, filter_arg = None, search_arg = None, orderby_arg = None,
              top_arg = None, all_arg = False\<rparr>"

definition lab_args :: odata_args where
  "lab_args =
     \<lparr>select_arg = Some (Lst [''id'', ''displayName'']),
      filter_arg = Some ''accountEnabled eq true'',
      search_arg = Some ''displayName:lab'',
      orderby_arg = Some (Str ''displayName''),
      top_arg = Some 50,
      all_arg = False\<rparr>"

definition empty_state :: "(error + response) list \<Rightarrow> script state" where
  "empty_state replies =
     \<lparr>cache = \<lparr>cache_jwt = None, cache_exp = None\<rparr>, world = (replies, 1000), sent = []\<rparr>"

section \<open>The token cache\<close>

lemma send_eq:
  "http env q (world s) = (r, w') \<Longrightarrow> send env q s = (r, s\<lparr>world := w', sent := sent s @ [q]\<rparr>)"
  by (simp add: send_def)

lemma get_token_request:
  "must_request env s \<Longrightarrow> get_token env s = request_token env s"
  by (auto simp: get_token_def must_request_def split: option.splits)

lemma get_token_fresh:
  assumes "cache_jwt (cache s) = Some token" and "cache_exp (cache s) = Some e"
    and "e \<ge> now env (world s) + 300"
  shows "get_token env s = (Inr token, s)"
  using assms by (simp add: get_token_def CLOCK_SKEW_SECONDS_def)

lemma get_token_ready: "get_token scripted (ready replies) = (Inr (JStr ''abc''), ready replies)"
  by (rule get_token_fresh [where e = 5000]) (simp_all add: ready_def scripted_def)

text \<open>
  Claim C3. When a token is cached and its expiry is more than 300 seconds after the
  current time, \<^verbatim>\<open>get_token\<close> returns the cached token and the state is the one
  before the call: nothing was sent, the cache is as it was.
\<close>

theorem get_token_cached:
  assumes "cache_jwt (cache s) = Some token" and "cache_exp (cache s) = Some e"
    and "e > now env (world s) + 300"
  shows "get_token env s = (Inr token, s)"
  using assms by (simp add: get_token_def CLOCK_SKEW_SECONDS_def)

theorem get_token_cached_witness:
  "get_token scripted
     \<lparr>cache = \<lparr>cache_jwt = Some (JStr ''abc''), cache_exp = Some 1301\<rparr>,
      world = ([], 1000), sent = []\<rparr>
   = (Inr (JStr ''abc''),
      \<lparr>cache = \<lparr>cache_jwt = Some (JStr ''abc''), cache_exp = Some 1301\<rparr>,
       world = ([], 1000), sent = []\<rparr>)"
  by (rule get_token_cached [where e = 1301]) (simp_all add: scripted_def)


lemma request_token_overflow:
  assumes "get_config env (world s) = (Inr (tenant_id, client_id, client_secret), w1)"
    and "http env (token_request env tenant_id client_id client_secret) w1 = (Inr resp, w2)"
    and "status_code resp = 200"
    and "body resp = Some (JDict kv)"
    and "map_of kv ''access_token'' = Some token"
    and "map_of kv ''expires_in'' = Some (JInt expires_in)"
    and "float_of_int env expires_in = Inl e"
  shows "request_token env s =
           (Inl e,
            \<lparr>cache = \<lparr>cache_jwt = Some token, cache_exp = cache_exp (cache s)\<rparr>,
             world = w2,
             sent = sent s @ [token_request env tenant_id client_id client_secret]\<rparr>)"
  using assms by (simp add: request_token_def send_def Let_def)

text \<open>
  An \<^verbatim>\<open>expires_in\<close> of \<open>10\<^sup>4\<^sup>0\<^sup>0\<close> with an empty cache: OverflowError, and the
  cache holds the new token and no expiry.
\<close>

lemma get_token_overflow_example:
  "get_token scripted
     (empty_state [Inr (json_reply 200 ''OK''
        (JDict [(''expires_in'', JInt (10 ^ 400)), (''access_token'', JStr ''new'')]))])
   = (Inl OverflowError,
      \<lparr>cache = \<lparr>cache_jwt = Some (JStr ''new''), cache_exp = None\<rparr>,
       world = ([], 1001),
       sent = [token_request scripted ''tenant'' ''client'' ''secret'']\<rparr>)"
proof -
  have m: "must_request scripted (empty_state rs)" for rs
    by (simp add: must_request_def empty_state_def)
  show ?thesis
    unfolding get_token_request [OF m]
    by (simp add: request_token_def send_def Let_def empty_state_def json_reply_def scripted_def
        token_request_def)
qed



text \<open>
  Claim C9. When \<^verbatim>\<open>get_token\<close> has to ask for a token and the answer is not a 200,
  it raises, and the cache is the one before the call.
\<close>

theorem get_token_failure_keeps_cache:
  assumes "must_request env s"
    and "get_config env (world s) = (Inr (tenant_id, client_id, client_secret), w1)"
    and "http env (token_request env tenant_id client_id client_secret) w1 = (Inr resp, w2)"
    and "status_code resp \<noteq> 200"
  shows "(\<exists>e. fst (get_token env s) = Inl e) \<and> cache (snd (get_token env s)) = cache s"
  using assms
  by (auto simp: get_token_request request_token_def send_def split: option.splits json.splits)

theorem get_token_failure_keeps_cache_witness:
  "(\<exists>e. fst (get_token scripted
             \<lparr>cache = \<lparr>cache_jwt = Some (JStr ''old''), cache_exp = Some 1299\<rparr>,
              world = ([Inr (json_reply 401 ''Unauthorized''
                          (JDict [(''error_description'', JStr ''bad secret'')]))], 1000),
              sent = []\<rparr>) = Inl e)
   \<and> cache (snd (get_token scripted
             \<lparr>cache = \<lparr>cache_jwt = Some (JStr ''old''), cache_exp = Some 1299\<rparr>,
              world = ([Inr (json_reply 401 ''Unauthorized''
                          (JDict [(''error_description'', JStr ''bad secret'')]))], 1000),
              sent = []\<rparr>))
     = \<lparr>cache_jwt = Some (JStr ''old''), cache_exp = Some 1299\<rparr>"
  using get_token_failure_keeps_cache
    [of scripted
      "\<lparr>cache = \<lparr>cache_jwt = Some (JStr ''old''), cache_exp = Some 1299\<rparr>,
        world = ([Inr (json_reply 401 ''Unauthorized''
                    (JDict [(''error_description'', JStr ''bad secret'')]))], 1000),
        sent = []\<rparr>"
      "''tenant''" "''client''" "''secret''" _ _ "([], 1001)"]
  by (simp add: scripted_def must_request_def CLOCK_SKEW_SECONDS_def json_reply_def)

section \<open>The paging loop\<close>

text \<open>Facts about the example environment.\<close>

lemma http_scripted:
  "http scripted q (r # rs, t) = (r, (rs, t + 1))"
  by (simp add: scripted_def)

lemma send_ready:
  "send scripted q (ready (r # rs)) = (r, (ready (r # rs))\<lparr>world := (rs, 1001), sent := [q]\<rparr>)"
  by (simp add: send_def ready_def http_scripted)

lemma answers_scripted: "answers scripted (map Inr rs, t) rs"
  by (induction rs arbitrary: t) (simp_all add: scripted_def)

lemma answers_http:
  "answers env w (r # rs) \<Longrightarrow> http env q w = (Inr r, snd (http env q w))"
  by (metis answers.simps(2) prod.collapse)

lemma continuation_X1:
  "continuation (page_reply xs (Some ''https://graph/devices?$skiptoken=X1'')) = Some ''X1''"
  by (simp add: continuation_def next_link_def page_reply_def json_reply_def dict_get_def
      dict_get_default_def skiptoken_def split_def)

lemma continuation_X2:
  "continuation (page_reply xs (Some ''https://graph/devices?$skiptoken=X2'')) = Some ''X2''"
  by (simp add: continuation_def next_link_def page_reply_def json_reply_def dict_get_def
      dict_get_default_def skiptoken_def split_def)

lemma value_array_page_reply: "value_array (page_reply xs l) = Some xs"
  by (simp add: value_array_def page_reply_def json_reply_def)

lemma next_link_last: "next_link (page_reply xs None) = JNull"
  by (simp add: next_link_def page_reply_def json_reply_def dict_get_def dict_get_default_def)

lemma paged_three_pages: "paged three_pages"
  by (simp add: three_pages_def continuation_X1 continuation_X2 value_array_page_reply next_link_last)

lemma error_message_error_reply: "error_message (error_reply code phrase msg) = Some (JStr msg)"
  by (simp add: error_message_def error_reply_def json_reply_def)

lemma failing_failing_pages: "failing failing_pages"
  by (simp add: failing_pages_def continuation_X1 continuation_X2 value_array_page_reply
      error_reply_def json_reply_def)

text \<open>One turn of the loop after a successful page, and after a failure.\<close>

lemma skiptoken_truthy: "skiptoken j = Inr t \<Longrightarrow> truthy j"
  by (auto simp: skiptoken_def split_def split: json.splits list.splits)

lemma continuation_truthy: "continuation r = Some t \<Longrightarrow> truthy (next_link r)"
  by (auto simp: continuation_def split: sum.splits dest: skiptoken_truthy)

lemma page_turn_page:
  assumes "http env (page_request u hs ps) (world s) = (Inr r, w')"
    and "value_array r = Some page"
  shows "page_turn env dflt u hs all' top' ps data s =
           (let s1 = s\<lparr>world := w', sent := sent s @ [page_request u hs ps]\<rparr> in
            if truthy (next_link r) \<and> all' \<and> top' = None then
              (case skiptoken (next_link r) of
                 Inl e \<Rightarrow> Raise e s1
               | Inr token \<Rightarrow>
                   Again (AList.update ''$skiptoken'' (Some (PStr token)) ps) (data @ page) s1)
            else Break (data @ page) s1)"
  using assms
  by (auto simp: page_turn_def send_eq value_array_def next_link_def dict_get_default_def Let_def
      split: if_splits option.splits json.splits sum.splits)

lemma page_turn_sent:
  "sent (turn_state (page_turn env dflt u hs all' top' ps data s)) = sent s @ [page_request u hs ps]"
  by (auto simp: page_turn_def send_def Let_def
      split: prod.splits if_splits option.splits json.splits sum.splits)

lemma page_turn_again:
  assumes "http env (page_request u hs ps) (world s) = (Inr r, w')"
    and "value_array r = Some page" and "continuation r = Some token"
  shows "page_turn env dflt u hs True None ps data s =
           Again (AList.update ''$skiptoken'' (Some (PStr token)) ps) (data @ page)
             (s\<lparr>world := w', sent := sent s @ [page_request u hs ps]\<rparr>)"
proof -
  have "skiptoken (next_link r) = Inr token"
    using assms(3) by (simp add: continuation_def split: sum.splits)
  moreover have "truthy (next_link r)"
    using assms(3) by (rule continuation_truthy)
  ultimately show ?thesis
    by (simp add: page_turn_page [OF assms(1,2)])
qed

lemma page_turn_break:
  assumes "http env (page_request u hs ps) (world s) = (Inr r, w')"
    and "value_array r = Some page"
    and "\<not> (truthy (next_link r) \<and> all' \<and> top' = None)"
  shows "page_turn env dflt u hs all' top' ps data s =
           Break (data @ page) (s\<lparr>world := w', sent := sent s @ [page_request u hs ps]\<rparr>)"
  using assms(3) by (auto simp: page_turn_page [OF assms(1,2)])

lemma page_turn_failed:
  assumes "http env (page_request u hs ps) (world s) = (Inr r, w')"
    and "status_code r \<noteq> 200"
  shows "page_turn env dflt u hs all' top' ps data s =
           Raise (request_failed r) (s\<lparr>world := w', sent := sent s @ [page_request u hs ps]\<rparr>)"
  using assms by (simp add: page_turn_def send_eq)


lemma page_turn_again_params:
  "page_turn env dflt u hs all' top' ps data s = Again ps' data' s1 \<Longrightarrow>
     \<exists>token. ps' = AList.update ''$skiptoken'' (Some (PStr token)) ps"
  by (auto simp: page_turn_def Let_def
      split: prod.splits if_splits option.splits json.splits sum.splits)


lemma page_loop_one_page:
  assumes "http env (page_request u hs ps) (world s) = (Inr r, w')"
    and "value_array r = Some page"
    and "\<not> (truthy (next_link r) \<and> all' \<and> top' = None)"
  shows "page_loop env dflt u hs all' top' ps data s =
           Some (Inr (data @ page), s\<lparr>world := w', sent := sent s @ [page_request u hs ps]\<rparr>)"
  by (subst page_loop.simps) (simp add: page_turn_break [OF assms])

lemma page_loop_paged:
  "paged rs \<Longrightarrow> answers env (world s) rs \<Longrightarrow>
     \<exists>s'. page_loop env dflt u hs True None ps data s
             = Some (Inr (data @ concat (map page_values rs)), s')
         \<and> length (sent s') = length (sent s) + length rs"
proof (induction rs arbitrary: ps data s rule: paged.induct)
  case 1
  then show ?case by simp
next
  case (2 r)
  from "2.prems"(2) have h: "http env (page_request u hs ps) (world s)
      = (Inr r, snd (http env (page_request u hs ps) (world s)))"
    by (rule answers_http)
  from "2.prems"(1) obtain page where p: "value_array r = Some page" and n: "\<not> truthy (next_link r)"
    by auto
  show ?case
    using n by (simp add: page_loop_one_page [OF h p] page_values_def p)
next
  case (3 r r' rs)
  let ?w = "snd (http env (page_request u hs ps) (world s))"
  from "3.prems"(2) have h: "http env (page_request u hs ps) (world s) = (Inr r, ?w)"
    by (rule answers_http)
  from "3.prems"(1) obtain page token where p: "value_array r = Some page"
    and c: "continuation r = Some token" and rest: "paged (r' # rs)"
    by auto
  let ?s1 = "s\<lparr>world := ?w, sent := sent s @ [page_request u hs ps]\<rparr>"
  have "answers env (world ?s1) (r' # rs)"
    using "3.prems"(2) by simp
  from "3.IH" [OF rest this]
  obtain s' where
    "page_loop env dflt u hs True None (AList.update ''$skiptoken'' (Some (PStr token)) ps)
       (data @ page) ?s1 = Some (Inr ((data @ page) @ concat (map page_values (r' # rs))), s')"
    and "length (sent s') = length (sent ?s1) + length (r' # rs)"
    by blast
  then show ?case
    by (subst page_loop.simps) (simp add: page_turn_again [OF h p c] page_values_def p)
qed

lemma page_loop_failing:
  "failing rs \<Longrightarrow> answers env (world s) rs \<Longrightarrow> length rs > 1 \<longrightarrow> all' \<and> top' = None \<Longrightarrow>
     \<exists>s'. page_loop env dflt u hs all' top' ps data s = Some (Inl (request_failed (last rs)), s')"
proof (induction rs arbitrary: ps data s rule: failing.induct)
  case 1
  then show ?case by simp
next
  case (2 r)
  from "2.prems"(2) have h: "http env (page_request u hs ps) (world s)
      = (Inr r, snd (http env (page_request u hs ps) (world s)))"
    by (rule answers_http)
  from "2.prems"(1) have "status_code r \<noteq> 200" by simp
  then show ?case
    by (subst page_loop.simps) (simp add: page_turn_failed [OF h])
next
  case (3 r r' rs)
  let ?w = "snd (http env (page_request u hs ps) (world s))"
  from "3.prems"(2) have h: "http env (page_request u hs ps) (world s) = (Inr r, ?w)"
    by (rule answers_http)
  from "3.prems"(1) obtain page token where p: "value_array r = Some page"
    and c: "continuation r = Some token" and rest: "failing (r' # rs)"
    by auto
  from "3.prems"(3) have fa: "all' = True" "top' = None" by auto
  let ?s1 = "s\<lparr>world := ?w, sent := sent s @ [page_request u hs ps]\<rparr>"
  have a: "answers env (world ?s1) (r' # rs)"
    using "3.prems"(2) by simp
  have b: "length (r' # rs) > 1 \<longrightarrow> all' \<and> top' = None"
    using fa by simp
  from "3.IH" [OF rest a b]
  obtain s' where
    "page_loop env dflt u hs all' top' (AList.update ''$skiptoken'' (Some (PStr token)) ps)
       (data @ page) ?s1 = Some (Inl (request_failed (last (r' # rs))), s')"
    by blast
  then show ?case
    unfolding fa
    by (subst page_loop.simps) (simp add: page_turn_again [OF h p c])
qed

text \<open>The two functions in terms of their loop.\<close>

lemma get_device_of_loop:
  assumes "\<not> (truthy_str device_id \<and> (truthy_str (filter_arg a) \<or> truthy_str (search_arg a)))"
    and "get_token env s = (Inr token, s0)"
    and "page_loop env (\<lambda>j. JList [j]) (device_url env device_id) (query_headers token a)
           (all_arg a) (top_arg a) (query_params a) [] s0 = Some (res, s')"
  shows "get_device env device_id a s =
           Some (case res of
                   Inl e \<Rightarrow> Inl e
                 | Inr data \<Rightarrow>
                     if truthy_str device_id then
                       (case data of [] \<Rightarrow> Inl IndexError | d # _ \<Rightarrow> Inr d)
                     else Inr (JList data), s')"
  using assms by (auto simp: get_device_def split: sum.splits list.splits)

lemma list_owned_devices_of_loop:
  assumes "get_token env s = (Inr token, s0)"
    and "page_loop env (\<lambda>j. JNull) (owned_devices_url env user_id) (query_headers token a)
           (all_arg a) (top_arg a) (query_params a) [] s0 = Some (res, s')"
  shows "list_owned_devices env user_id a s =
           Some (case res of Inl e \<Rightarrow> Inl e | Inr data \<Rightarrow> Inr (JList data), s')"
  using assms by (auto simp: list_owned_devices_def split: sum.splits)

lemma get_device_one_page:
  assumes "\<not> truthy_str device_id"
    and "get_token env s0 = (Inr token, s)"
    and "http env (page_request (device_url env device_id) (query_headers token a) (query_params a))
           (world s) = (Inr r, w')"
    and "value_array r = Some page"
    and "\<not> (truthy (next_link r) \<and> all_arg a \<and> top_arg a = None)"
  shows "get_device env device_id a s0
           = Some (Inr (JList page),
               s\<lparr>world := w',
                 sent := sent s @ [page_request (device_url env device_id)
                                     (query_headers token a) (query_params a)]\<rparr>)"
  using get_device_of_loop [OF _ assms(2) page_loop_one_page [OF assms(3,4,5), of "\<lambda>j. JList [j]" "[]"]]
    assms(1)
  by simp




text \<open>
  Claim C2. A fetch-all call (\<^verbatim>\<open>all\<close> true, \<^verbatim>\<open>top\<close> \<^verbatim>\<open>None\<close>) of \<^verbatim>\<open>get_device\<close> in list mode or of \<^verbatim>\<open>list_owned_devices\<close>, against a
  server that answers with a finite sequence of successful pages, all but the last
  with a continuation link, returns the concatenation of the pages' \<^verbatim>\<open>value\<close> arrays in page
  order, after one request for each page.
\<close>

theorem fetch_all_concatenates:
  assumes "all_arg a" and "top_arg a = None"
    and "get_token env s = (Inr token, s0)"
    and "answers env (world s0) rs" and "paged rs"
  shows "(\<not> truthy_str device_id \<longrightarrow>
            (\<exists>s'. get_device env device_id a s
                     = Some (Inr (JList (concat (map page_values rs))), s')
                 \<and> length (sent s') = length (sent s0) + length rs))
       \<and> (\<exists>s'. list_owned_devices env user_id a s
                     = Some (Inr (JList (concat (map page_values rs))), s')
                 \<and> length (sent s') = length (sent s0) + length rs)"
proof (intro conjI impI)
  assume list_mode: "\<not> truthy_str device_id"
  from page_loop_paged [OF assms(5,4)]
  obtain s' where
    l: "page_loop env (\<lambda>j. JList [j]) (device_url env device_id) (query_headers token a)
          True None (query_params a) [] s0
        = Some (Inr ([] @ concat (map page_values rs)), s')"
    and n: "length (sent s') = length (sent s0) + length rs"
    by blast
  have "get_device env device_id a s = Some (Inr (JList (concat (map page_values rs))), s')"
    using get_device_of_loop [OF _ assms(3), of device_id a "Inr (concat (map page_values rs))" s']
      l list_mode assms(1,2)
    by simp
  with n show "\<exists>s'. get_device env device_id a s
                     = Some (Inr (JList (concat (map page_values rs))), s')
                 \<and> length (sent s') = length (sent s0) + length rs"
    by blast
next
  from page_loop_paged [OF assms(5,4)]
  obtain s' where
    l: "page_loop env (\<lambda>j. JNull) (owned_devices_url env user_id) (query_headers token a)
          True None (query_params a) [] s0
        = Some (Inr ([] @ concat (map page_values rs)), s')"
    and n: "length (sent s') = length (sent s0) + length rs"
    by blast
  have "list_owned_devices env user_id a s = Some (Inr (JList (concat (map page_values rs))), s')"
    using list_owned_devices_of_loop [OF assms(3), of user_id a "Inr (concat (map page_values rs))" s']
      l assms(1,2)
    by simp
  with n show "\<exists>s'. list_owned_devices env user_id a s
                     = Some (Inr (JList (concat (map page_values rs))), s')
                 \<and> length (sent s') = length (sent s0) + length rs"
    by blast
qed

theorem fetch_all_concatenates_witness:
  "(\<exists>s'. get_device scripted None (no_args\<lparr>all_arg := True\<rparr>) (ready (map Inr three_pages))
            = Some (Inr (JList [JStr ''a'', JStr ''b'', JStr ''c'', JStr ''d'', JStr ''e'']), s')
        \<and> length (sent s') = 3)
   \<and> (\<exists>s'. list_owned_devices scripted ''u1'' (no_args\<lparr>all_arg := True\<rparr>)
              (ready (map Inr three_pages))
            = Some (Inr (JList [JStr ''a'', JStr ''b'', JStr ''c'', JStr ''d'', JStr ''e'']), s')
        \<and> length (sent s') = 3)"
proof -
  have a: "answers scripted (world (ready (map Inr three_pages))) three_pages"
    by (simp add: ready_def answers_scripted)
  have v: "concat (map page_values three_pages)
             = [JStr ''a'', JStr ''b'', JStr ''c'', JStr ''d'', JStr ''e'']"
    by (simp add: three_pages_def page_values_def value_array_page_reply)
  have n: "length three_pages = 3" "sent (ready (map Inr three_pages)) = []"
    by (simp_all add: three_pages_def ready_def)
  show ?thesis
    using fetch_all_concatenates
      [OF _ _ get_token_ready a paged_three_pages, of "no_args\<lparr>all_arg := True\<rparr>" None "''u1''"]
    by (simp add: v n no_args_def)
qed

section \<open>Query parameters\<close>

lemma emitted_simps:
  "emitted [] k = None"
  "emitted ((k', v) # kvs) k = (if k' = k then v else emitted kvs k)"
  by (auto simp: emitted_def split: option.splits)

lemma emitted_update_other:
  "k \<noteq> k' \<Longrightarrow> emitted (AList.update k' v kvs) k = emitted kvs k"
  by (simp add: emitted_def update_conv')

lemma joined_iff: "joined x \<noteq> None \<longleftrightarrow> truthy_arg x"
  by (cases x) auto

lemma quoted_iff: "quoted x \<noteq> None \<longleftrightarrow> truthy_str x"
  by (cases x) auto

lemma emitted_query_params:
  "emitted (query_params a) ''$select'' = joined (select_arg a)"
  "emitted (query_params a) ''$filter'' = map_option PStr (filter_arg a)"
  "emitted (query_params a) ''$search'' = quoted (search_arg a)"
  "emitted (query_params a) ''$orderby'' = joined (orderby_arg a)"
  "emitted (query_params a) ''$top''
     = (case top_arg a of
          Some n \<Rightarrow> Some (PInt n)
        | None \<Rightarrow> if all_arg a then Some (PInt 999) else None)"
  "emitted (query_params a) ''$count'' = (if advanced_query a then Some (PStr ''true'') else None)"
  by (simp_all add: query_params_def emitted_simps MAX_PAGE_SIZE_def split: option.splits)

lemma emitted_query_headers:
  "emitted (query_headers token a) ''ConsistencyLevel''
     = (if advanced_query a then Some (Plain ''eventual'') else None)"
  by (simp add: query_headers_def emitted_simps)

text \<open>
  Every request of a run of the loop has the headers the loop was given, and its
  parameters apart from the cursor.
\<close>

lemma page_loop_requests:
  assumes "page_loop env dflt u hs all' top' ps data s = Some y"
  shows "\<exists>qs. sent (snd y) = sent s @ page_request u hs ps # qs
        \<and> (\<forall>q \<in> set (page_request u hs ps # qs). req_headers q = hs
             \<and> (\<forall>k. k \<noteq> ''$skiptoken'' \<longrightarrow> emitted (req_params q) k = emitted ps k))"
  using assms
proof (induction env dflt u hs all' top' ps data s y rule: page_loop.raw_induct [rotated 1, consumes 1])
  case (1 loop env dflt u hs all' top' ps data s y)
  have sent1: "sent (turn_state (page_turn env dflt u hs all' top' ps data s))
      = sent s @ [page_request u hs ps]"
    by (rule page_turn_sent)
  show ?case
  proof (cases "page_turn env dflt u hs all' top' ps data s")
    case (Again ps' data' s1)
    then have l: "loop env dflt u hs all' top' ps' data' s1 = Some y"
      using "1.hyps" by simp
    from "1.IH" [OF l] obtain qs where
      q: "sent (snd y) = sent s1 @ page_request u hs ps' # qs"
      and a: "\<forall>q \<in> set (page_request u hs ps' # qs). req_headers q = hs
                \<and> (\<forall>k. k \<noteq> ''$skiptoken'' \<longrightarrow> emitted (req_params q) k = emitted ps' k)"
      by blast
    have s1: "sent s1 = sent s @ [page_request u hs ps]"
      using sent1 Again by simp
    from page_turn_again_params [OF Again]
    have p: "k \<noteq> ''$skiptoken'' \<Longrightarrow> emitted ps' k = emitted ps k" for k
      by (auto simp: emitted_update_other)
    have "sent (snd y) = sent s @ page_request u hs ps # (page_request u hs ps' # qs)"
      using q s1 by simp
    moreover have "\<forall>q \<in> set (page_request u hs ps # page_request u hs ps' # qs).
        req_headers q = hs
          \<and> (\<forall>k. k \<noteq> ''$skiptoken'' \<longrightarrow> emitted (req_params q) k = emitted ps k)"
      using a p by (simp add: page_request_def)
    ultimately show ?thesis by blast
  next
    case (Break data' s1)
    then have "snd y = s1" using "1.hyps" by auto
    moreover have "sent s1 = sent s @ [page_request u hs ps]"
      using sent1 Break by simp
    ultimately show ?thesis by (simp add: page_request_def)
  next
    case (Raise e s1)
    then have "snd y = s1" using "1.hyps" by auto
    moreover have "sent s1 = sent s @ [page_request u hs ps]"
      using sent1 Raise by simp
    ultimately show ?thesis by (simp add: page_request_def)
  qed
qed

lemma get_device_requests:
  assumes "\<not> (truthy_str device_id \<and> (truthy_str (filter_arg a) \<or> truthy_str (search_arg a)))"
    and "get_token env s = (Inr token, s0)"
    and "get_device env device_id a s = Some y"
  shows "\<exists>qs. sent (snd y) = sent s0 @ qs \<and> qs \<noteq> []
           \<and> (\<forall>q \<in> set qs. req_headers q = query_headers token a
                \<and> (\<forall>k. k \<noteq> ''$skiptoken'' \<longrightarrow>
                      emitted (req_params q) k = emitted (query_params a) k))"
proof -
  from assms obtain y0 where
    l: "page_loop env (\<lambda>j. JList [j]) (device_url env device_id) (query_headers token a)
          (all_arg a) (top_arg a) (query_params a) [] s0 = Some y0"
    and s: "snd y = snd y0"
    by (auto simp: get_device_def split: option.splits sum.splits list.splits if_splits)
  from page_loop_requests [OF l] s show ?thesis
    by (metis list.distinct(1))
qed

lemma list_owned_devices_requests:
  assumes "get_token env s = (Inr token, s0)"
    and "list_owned_devices env user_id a s = Some y"
  shows "\<exists>qs. sent (snd y) = sent s0 @ qs \<and> qs \<noteq> []
           \<and> (\<forall>q \<in> set qs. req_headers q = query_headers token a
                \<and> (\<forall>k. k \<noteq> ''$skiptoken'' \<longrightarrow>
                      emitted (req_params q) k = emitted (query_params a) k))"
proof -
  from assms obtain y0 where
    l: "page_loop env (\<lambda>j. JNull) (owned_devices_url env user_id) (query_headers token a)
          (all_arg a) (top_arg a) (query_params a) [] s0 = Some y0"
    and s: "snd y = snd y0"
    by (auto simp: list_owned_devices_def split: option.splits sum.splits)
  from page_loop_requests [OF l] s show ?thesis
    by (metis list.distinct(1))
qed

lemma get_device_lab_example:
  "get_device scripted None lab_args (ready (map Inr three_pages))
     = Some (Inr (JList [JStr ''a'', JStr ''b'']),
         (ready (map Inr three_pages))
           \<lparr>world := (map Inr (tl three_pages), 1001),
            sent := [page_request (device_url scripted None)
                       (query_headers (JStr ''abc'') lab_args) (query_params lab_args)]\<rparr>)"
proof -
  let ?p1 = "page_reply [JStr ''a'', JStr ''b''] (Some ''https://graph/devices?$skiptoken=X1'')"
  have h: "http scripted q (world (ready (map Inr three_pages)))
             = (Inr ?p1, (map Inr (tl three_pages), 1001))" for q
    by (simp add: ready_def three_pages_def http_scripted)
  have t: "\<not> (truthy (next_link ?p1) \<and> all_arg lab_args \<and> top_arg lab_args = None)"
    by (simp add: lab_args_def)
  have s: "sent (ready (map Inr three_pages)) = []"
    by (simp add: ready_def)
  show ?thesis
    using get_device_one_page [OF _ get_token_ready h value_array_page_reply t, of None]
    by (simp add: s)
qed

text \<open>
  With \<^verbatim>\<open>all=True\<close> and no \<^verbatim>\<open>top\<close>, \<^verbatim>\<open>$top\<close> is sent (as 999) although the caller's \<^verbatim>\<open>top\<close> is empty; with the
  empty string for \<^verbatim>\<open>filter\<close>, \<^verbatim>\<open>$filter\<close> is sent with the empty value.
\<close>

theorem emitted_although_empty:
  "top_arg (no_args\<lparr>all_arg := True\<rparr>) = None
   \<and> emitted (query_params (no_args\<lparr>all_arg := True\<rparr>)) ''$top'' = Some (PInt 999)
   \<and> \<not> truthy_str (filter_arg (no_args\<lparr>filter_arg := Some []\<rparr>))
   \<and> emitted (query_params (no_args\<lparr>filter_arg := Some []\<rparr>)) ''$filter'' = Some (PStr [])"
  by (simp add: no_args_def query_params_def emitted_simps MAX_PAGE_SIZE_def)

text \<open>
  Claim C5, as amended. In every paginated list call: \<^verbatim>\<open>$select\<close>, \<^verbatim>\<open>$search\<close> (the value in double
  quotes) and \<^verbatim>\<open>$orderby\<close> are sent exactly when the argument is not empty; \<^verbatim>\<open>$filter\<close> is sent as given
  when the argument is not empty and is not sent when it is \<^verbatim>\<open>None\<close>; \<^verbatim>\<open>$top\<close> is sent when \<^verbatim>\<open>top\<close> is
  given and, as 999, when \<^verbatim>\<open>top\<close> is \<^verbatim>\<open>None\<close> and \<^verbatim>\<open>all\<close> is true; \<^verbatim>\<open>$count=true\<close> and the header \<^verbatim>\<open>ConsistencyLevel: eventual\<close> are sent
  together exactly when one of \<^verbatim>\<open>filter\<close>, \<^verbatim>\<open>search\<close> and \<^verbatim>\<open>orderby\<close> is not empty, and neither is sent
  otherwise. Every request that a call sends has these headers and, apart from the
  cursor, these parameters.
\<close>

theorem query_emits:
  "(emitted (query_params a) ''$select'' \<noteq> None \<longleftrightarrow> truthy_arg (select_arg a))
   \<and> (\<forall>x. select_arg a = Some x \<and> truthy_arg (Some x) \<longrightarrow>
         emitted (query_params a) ''$select'' = Some (PStr (join '','' (ensure_list x))))
   \<and> (filter_arg a = None \<longrightarrow> emitted (query_params a) ''$filter'' = None)
   \<and> (\<forall>x. filter_arg a = Some x \<and> x \<noteq> [] \<longrightarrow>
         emitted (query_params a) ''$filter'' = Some (PStr x))
   \<and> (emitted (query_params a) ''$search'' \<noteq> None \<longleftrightarrow> truthy_str (search_arg a))
   \<and> (\<forall>x. search_arg a = Some x \<and> x \<noteq> [] \<longrightarrow>
         emitted (query_params a) ''$search'' = Some (PStr ([CHR 0x22] @ x @ [CHR 0x22])))
   \<and> (emitted (query_params a) ''$orderby'' \<noteq> None \<longleftrightarrow> truthy_arg (orderby_arg a))
   \<and> (\<forall>x. orderby_arg a = Some x \<and> truthy_arg (Some x) \<longrightarrow>
         emitted (query_params a) ''$orderby'' = Some (PStr (join '','' (ensure_list x))))
   \<and> emitted (query_params a) ''$top''
       = (case top_arg a of
            Some n \<Rightarrow> Some (PInt n)
          | None \<Rightarrow> if all_arg a then Some (PInt 999) else None)
   \<and> (emitted (query_params a) ''$count'' = Some (PStr ''true'')
        \<and> emitted (query_headers token a) ''ConsistencyLevel'' = Some (Plain ''eventual'')
      \<longleftrightarrow> truthy_str (filter_arg a) \<or> truthy_str (search_arg a) \<or> truthy_arg (orderby_arg a))
   \<and> (emitted (query_params a) ''$count'' = None
        \<and> emitted (query_headers token a) ''ConsistencyLevel'' = None
      \<longleftrightarrow> \<not> (truthy_str (filter_arg a) \<or> truthy_str (search_arg a) \<or> truthy_arg (orderby_arg a)))
   \<and> (\<forall>(env :: 'w env) device_id s s0 y.
         \<not> (truthy_str device_id \<and> (truthy_str (filter_arg a) \<or> truthy_str (search_arg a)))
         \<and> get_token env s = (Inr token, s0) \<and> get_device env device_id a s = Some y \<longrightarrow>
         (\<exists>qs. sent (snd y) = sent s0 @ qs \<and> qs \<noteq> []
            \<and> (\<forall>q \<in> set qs. req_headers q = query_headers token a
                 \<and> (\<forall>k. k \<noteq> ''$skiptoken'' \<longrightarrow>
                       emitted (req_params q) k = emitted (query_params a) k))))
   \<and> (\<forall>(env :: 'w env) user_id s s0 y.
         get_token env s = (Inr token, s0) \<and> list_owned_devices env user_id a s = Some y \<longrightarrow>
         (\<exists>qs. sent (snd y) = sent s0 @ qs \<and> qs \<noteq> []
            \<and> (\<forall>q \<in> set qs. req_headers q = query_headers token a
                 \<and> (\<forall>k. k \<noteq> ''$skiptoken'' \<longrightarrow>
                       emitted (req_params q) k = emitted (query_params a) k))))"
proof -
  have "emitted (query_params a) ''$select'' \<noteq> None \<longleftrightarrow> truthy_arg (select_arg a)"
    by (simp only: emitted_query_params joined_iff)
  moreover have "\<forall>x. select_arg a = Some x \<and> truthy_arg (Some x) \<longrightarrow>
         emitted (query_params a) ''$select'' = Some (PStr (join '','' (ensure_list x)))"
    by (simp add: emitted_query_params)
  moreover have "filter_arg a = None \<longrightarrow> emitted (query_params a) ''$filter'' = None"
    by (simp add: emitted_query_params)
  moreover have "\<forall>x. filter_arg a = Some x \<and> x \<noteq> [] \<longrightarrow>
         emitted (query_params a) ''$filter'' = Some (PStr x)"
    by (simp add: emitted_query_params)
  moreover have "emitted (query_params a) ''$search'' \<noteq> None \<longleftrightarrow> truthy_str (search_arg a)"
    by (simp only: emitted_query_params quoted_iff)
  moreover have "\<forall>x. search_arg a = Some x \<and> x \<noteq> [] \<longrightarrow>
         emitted (query_params a) ''$search'' = Some (PStr ([CHR 0x22] @ x @ [CHR 0x22]))"
    by (simp add: emitted_query_params)
  moreover have "emitted (query_params a) ''$orderby'' \<noteq> None \<longleftrightarrow> truthy_arg (orderby_arg a)"
    by (simp only: emitted_query_params joined_iff)
  moreover have "\<forall>x. orderby_arg a = Some x \<and> truthy_arg (Some x) \<longrightarrow>
         emitted (query_params a) ''$orderby'' = Some (PStr (join '','' (ensure_list x)))"
    by (simp add: emitted_query_params)
  moreover have "emitted (query_params a) ''$top''
       = (case top_arg a of
            Some n \<Rightarrow> Some (PInt n)
          | None \<Rightarrow> if all_arg a then Some (PInt 999) else None)"
    by (rule emitted_query_params)
  moreover have "emitted (query_params a) ''$count'' = Some (PStr ''true'')
        \<and> emitted (query_headers token a) ''ConsistencyLevel'' = Some (Plain ''eventual'')
      \<longleftrightarrow> truthy_str (filter_arg a) \<or> truthy_str (search_arg a) \<or> truthy_arg (orderby_arg a)"
    by (simp add: emitted_query_params emitted_query_headers advanced_query_def)
  moreover have "emitted (query_params a) ''$count'' = None
        \<and> emitted (query_headers token a) ''ConsistencyLevel'' = None
      \<longleftrightarrow> \<not> (truthy_str (filter_arg a) \<or> truthy_str (search_arg a) \<or> truthy_arg (orderby_arg a))"
    by (simp add: emitted_query_params emitted_query_headers advanced_query_def)
  moreover have "\<forall>(env :: 'w env) device_id s s0 y.
         \<not> (truthy_str device_id \<and> (truthy_str (filter_arg a) \<or> truthy_str (search_arg a)))
         \<and> get_token env s = (Inr token, s0) \<and> get_device env device_id a s = Some y \<longrightarrow>
         (\<exists>qs. sent (snd y) = sent s0 @ qs \<and> qs \<noteq> []
            \<and> (\<forall>q \<in> set qs. req_headers q = query_headers token a
                 \<and> (\<forall>k. k \<noteq> ''$skiptoken'' \<longrightarrow>
                       emitted (req_params q) k = emitted (query_params a) k)))"
    using get_device_requests by blast
  moreover have "\<forall>(env :: 'w env) user_id s s0 y.
         get_token env s = (Inr token, s0) \<and> list_owned_devices env user_id a s = Some y \<longrightarrow>
         (\<exists>qs. sent (snd y) = sent s0 @ qs \<and> qs \<noteq> []
            \<and> (\<forall>q \<in> set qs. req_headers q = query_headers token a
                 \<and> (\<forall>k. k \<noteq> ''$skiptoken'' \<longrightarrow>
                       emitted (req_params q) k = emitted (query_params a) k)))"
    using list_owned_devices_requests by blast
  ultimately show ?thesis by blast
qed

theorem query_emits_witness:
  "emitted (query_params lab_args) ''$select'' = Some (PStr ''id,displayName'')
   \<and> emitted (query_params lab_args) ''$filter'' = Some (PStr ''accountEnabled eq true'')
   \<and> emitted (query_params lab_args) ''$search''
       = Some (PStr ([CHR 0x22] @ ''displayName:lab'' @ [CHR 0x22]))
   \<and> emitted (query_params lab_args) ''$orderby'' = Some (PStr ''displayName'')
   \<and> emitted (query_params lab_args) ''$top'' = Some (PInt 50)
   \<and> emitted (query_params lab_args) ''$count'' = Some (PStr ''true'')
   \<and> emitted (query_headers (JStr ''abc'') lab_args) ''ConsistencyLevel'' = Some (Plain ''eventual'')
   \<and> emitted (query_params no_args) ''$filter'' = None
   \<and> emitted (query_params no_args) ''$count'' = None
   \<and> emitted (query_headers (JStr ''abc'') no_args) ''ConsistencyLevel'' = None
   \<and> (\<exists>y qs. get_device scripted None lab_args (ready (map Inr three_pages)) = Some y
         \<and> sent (snd y) = qs \<and> qs \<noteq> []
         \<and> (\<forall>q \<in> set qs. emitted (req_params q) ''$top'' = Some (PInt 50)))"
proof -
  note lab = query_emits [of lab_args "JStr ''abc''"]
  note none = query_emits [of no_args "JStr ''abc''"]
  have sel: "select_arg lab_args = Some (Lst [''id'', ''displayName''])
      \<and> truthy_arg (Some (Lst [''id'', ''displayName'']))"
    by (simp add: lab_args_def)
  have fil: "filter_arg lab_args = Some ''accountEnabled eq true'' \<and> ''accountEnabled eq true'' \<noteq> []"
    by (simp add: lab_args_def)
  have sea: "search_arg lab_args = Some ''displayName:lab'' \<and> ''displayName:lab'' \<noteq> []"
    by (simp add: lab_args_def)
  have ord: "orderby_arg lab_args = Some (Str ''displayName'') \<and> truthy_arg (Some (Str ''displayName''))"
    by (simp add: lab_args_def)
  have adv: "truthy_str (filter_arg lab_args) \<or> truthy_str (search_arg lab_args)
      \<or> truthy_arg (orderby_arg lab_args)"
    by (simp add: lab_args_def)
  have nadv: "\<not> (truthy_str (filter_arg no_args) \<or> truthy_str (search_arg no_args)
      \<or> truthy_arg (orderby_arg no_args))"
    by (simp add: no_args_def)
  have 1: "emitted (query_params lab_args) ''$select'' = Some (PStr ''id,displayName'')"
    using lab [THEN conjunct2, THEN conjunct1, rule_format, OF sel] by simp
  have 2: "emitted (query_params lab_args) ''$filter'' = Some (PStr ''accountEnabled eq true'')"
    using lab [THEN conjunct2, THEN conjunct2, THEN conjunct2, THEN conjunct1, rule_format, OF fil] .
  have 3: "emitted (query_params lab_args) ''$search''
       = Some (PStr ([CHR 0x22] @ ''displayName:lab'' @ [CHR 0x22]))"
    using lab [THEN conjunct2, THEN conjunct2, THEN conjunct2, THEN conjunct2, THEN conjunct2,
        THEN conjunct1, rule_format, OF sea] .
  have 4: "emitted (query_params lab_args) ''$orderby'' = Some (PStr ''displayName'')"
    using lab [THEN conjunct2, THEN conjunct2, THEN conjunct2, THEN conjunct2, THEN conjunct2,
        THEN conjunct2, THEN conjunct2, THEN conjunct1, rule_format, OF ord] by simp
  have 5: "emitted (query_params lab_args) ''$top'' = Some (PInt 50)"
    using lab [THEN conjunct2, THEN conjunct2, THEN conjunct2, THEN conjunct2, THEN conjunct2,
        THEN conjunct2, THEN conjunct2, THEN conjunct2, THEN conjunct1]
    by (simp add: lab_args_def)
  have 6: "emitted (query_params lab_args) ''$count'' = Some (PStr ''true'')
      \<and> emitted (query_headers (JStr ''abc'') lab_args) ''ConsistencyLevel'' = Some (Plain ''eventual'')"
    using lab [THEN conjunct2, THEN conjunct2, THEN conjunct2, THEN conjunct2, THEN conjunct2,
        THEN conjunct2, THEN conjunct2, THEN conjunct2, THEN conjunct2, THEN conjunct1,
        THEN iffD2, OF adv] .
  have 7: "emitted (query_params no_args) ''$filter'' = None"
    using none [THEN conjunct2, THEN conjunct2, THEN conjunct1] by (simp add: no_args_def)
  have 8: "emitted (query_params no_args) ''$count'' = None
      \<and> emitted (query_headers (JStr ''abc'') no_args) ''ConsistencyLevel'' = None"
    using none [THEN conjunct2, THEN conjunct2, THEN conjunct2, THEN conjunct2, THEN conjunct2,
        THEN conjunct2, THEN conjunct2, THEN conjunct2, THEN conjunct2, THEN conjunct2,
        THEN conjunct1, THEN iffD2, OF nadv] .
  have run: "\<not> (truthy_str None \<and> (truthy_str (filter_arg lab_args) \<or> truthy_str (search_arg lab_args)))
      \<and> get_token scripted (ready (map Inr three_pages))
          = (Inr (JStr ''abc''), ready (map Inr three_pages))
      \<and> get_device scripted None lab_args (ready (map Inr three_pages))
          = Some (Inr (JList [JStr ''a'', JStr ''b'']),
              (ready (map Inr three_pages))
                \<lparr>world := (map Inr (tl three_pages), 1001),
                 sent := [page_request (device_url scripted None)
                            (query_headers (JStr ''abc'') lab_args) (query_params lab_args)]\<rparr>)"
    by (simp add: get_token_ready get_device_lab_example)
  from lab [THEN conjunct2, THEN conjunct2, THEN conjunct2, THEN conjunct2, THEN conjunct2,
        THEN conjunct2, THEN conjunct2, THEN conjunct2, THEN conjunct2, THEN conjunct2,
        THEN conjunct2, THEN conjunct1, rule_format, OF run]
  obtain qs where "sent (snd (Inr (JList [JStr ''a'', JStr ''b'']) :: error + json,
              (ready (map Inr three_pages))
                \<lparr>world := (map Inr (tl three_pages), 1001),
                 sent := [page_request (device_url scripted None)
                            (query_headers (JStr ''abc'') lab_args) (query_params lab_args)]\<rparr>))
        = sent (ready (map Inr three_pages)) @ qs" and "qs \<noteq> []"
      and "\<forall>q \<in> set qs. req_headers q = query_headers (JStr ''abc'') lab_args
                 \<and> (\<forall>k. k \<noteq> ''$skiptoken'' \<longrightarrow>
                       emitted (req_params q) k = emitted (query_params lab_args) k)"
    by blast
  then have 9: "\<exists>y qs. get_device scripted None lab_args (ready (map Inr three_pages)) = Some y
         \<and> sent (snd y) = qs \<and> qs \<noteq> []
         \<and> (\<forall>q \<in> set qs. emitted (req_params q) ''$top'' = Some (PInt 50))"
    using run 5 by (auto simp: ready_def)
  from 1 2 3 4 5 6 7 8 9 show ?thesis by blast
qed

section \<open>Failures\<close>

lemma request_failed_message:
  "error_message r = Some m \<Longrightarrow> request_failed r = ConnectionError (status_code r) (reason r) m"
  by (auto simp: error_message_def request_failed_def dict_get_def dict_get_default_def
      split: option.splits json.splits)

lemma get_laps_password_failed:
  assumes "get_token env s = (Inr token, s0)"
    and "answers env (world s0) [r]" and "status_code r \<noteq> 200"
  shows "fst (get_laps_password env device_id s) = Inl (request_failed r)"
proof -
  from assms(2) have "http env (laps_request env device_id token) (world s0)
      = (Inr r, snd (http env (laps_request env device_id token) (world s0)))"
    by (rule answers_http)
  with assms(1,3) show ?thesis
    by (simp add: get_laps_password_def send_eq)
qed

lemma delete_device_failed:
  assumes "get_token env s = (Inr token, s0)"
    and "answers env (world s0) [r]" and "status_code r \<noteq> 204"
  shows "fst (delete_device env device_id s) = Inl (request_failed r)"
proof -
  from assms(2) have "http env (delete_request env device_id token) (world s0)
      = (Inr r, snd (http env (delete_request env device_id token) (world s0)))"
    by (rule answers_http)
  with assms(1,3) show ?thesis
    by (simp add: delete_device_def send_eq)
qed

text \<open>
  A response that is not a 200 and raises nothing: the 204 that answers a successful
  \<^verbatim>\<open>delete_device\<close>. A response that is not a 200 and whose error does not carry the status: one
  whose body is not JSON.
\<close>

theorem non_200_without_error:
  "status_code no_content \<noteq> 200
   \<and> fst (delete_device scripted ''d1'' (ready [Inr no_content])) = Inr True
   \<and> status_code bad_gateway \<noteq> 200
   \<and> fst (get_laps_password scripted ''d1'' (ready [Inr bad_gateway])) = Inl JSONDecodeError"
  by (simp add: delete_device_def get_laps_password_def get_token_ready send_ready
      no_content_def bad_gateway_def request_failed_def)

text \<open>
  Claim C6, as amended. When a response is not a 200 (for \<^verbatim>\<open>delete_device\<close>: not a 204) and its body
  is a JSON object whose \<^verbatim>\<open>error\<close> object has a \<^verbatim>\<open>message\<close>, the operation raises \<^verbatim>\<open>ConnectionError\<close> with the status
  code, the reason phrase and that message, and returns no data: in \<^verbatim>\<open>get_device\<close> and \<^verbatim>\<open>list_owned_devices\<close> also
  when the failure follows pages that a fetch-all loop has accumulated.
\<close>

theorem failed_request_raises:
  assumes "get_token env s = (Inr token, s0)"
    and "answers env (world s0) rs"
    and "error_message (last rs) = Some message"
  shows
    "(failing rs \<and> (length rs > 1 \<longrightarrow> all_arg a \<and> top_arg a = None)
      \<and> \<not> (truthy_str device_id \<and> (truthy_str (filter_arg a) \<or> truthy_str (search_arg a))) \<longrightarrow>
        (\<exists>s'. get_device env device_id a s
                 = Some (Inl (ConnectionError (status_code (last rs)) (reason (last rs)) message), s')))
     \<and> (failing rs \<and> (length rs > 1 \<longrightarrow> all_arg a \<and> top_arg a = None) \<longrightarrow>
        (\<exists>s'. list_owned_devices env user_id a s
                 = Some (Inl (ConnectionError (status_code (last rs)) (reason (last rs)) message), s')))
     \<and> (length rs = 1 \<and> status_code (last rs) \<noteq> 200 \<longrightarrow>
          fst (get_laps_password env laps_id s)
            = Inl (ConnectionError (status_code (last rs)) (reason (last rs)) message))
     \<and> (length rs = 1 \<and> status_code (last rs) \<noteq> 204 \<longrightarrow>
          fst (delete_device env delete_id s)
            = Inl (ConnectionError (status_code (last rs)) (reason (last rs)) message))"
  (is "?device \<and> ?owned \<and> ?laps \<and> ?delete")
proof (intro conjI impI)
  note m = request_failed_message [OF assms(3)]
  {
    assume h: "failing rs \<and> (length rs > 1 \<longrightarrow> all_arg a \<and> top_arg a = None)
      \<and> \<not> (truthy_str device_id \<and> (truthy_str (filter_arg a) \<or> truthy_str (search_arg a)))"
    then have f: "failing rs" and fa: "length rs > 1 \<longrightarrow> all_arg a \<and> top_arg a = None"
      by blast+
    from page_loop_failing [OF f assms(2) fa]
    obtain s' where "page_loop env (\<lambda>j. JList [j]) (device_url env device_id)
        (query_headers token a) (all_arg a) (top_arg a) (query_params a) [] s0
        = Some (Inl (request_failed (last rs)), s')"
      by blast
    from get_device_of_loop [OF _ assms(1) this] h
    have "get_device env device_id a s = Some (Inl (request_failed (last rs)), s')"
      by simp
    then show "\<exists>s'. get_device env device_id a s
                 = Some (Inl (ConnectionError (status_code (last rs)) (reason (last rs)) message), s')"
      by (simp add: m)
  }
  {
    assume h: "failing rs \<and> (length rs > 1 \<longrightarrow> all_arg a \<and> top_arg a = None)"
    then have f: "failing rs" and fa: "length rs > 1 \<longrightarrow> all_arg a \<and> top_arg a = None"
      by blast+
    from page_loop_failing [OF f assms(2) fa]
    obtain s' where "page_loop env (\<lambda>j. JNull) (owned_devices_url env user_id)
        (query_headers token a) (all_arg a) (top_arg a) (query_params a) [] s0
        = Some (Inl (request_failed (last rs)), s')"
      by blast
    from list_owned_devices_of_loop [OF assms(1) this]
    have "list_owned_devices env user_id a s = Some (Inl (request_failed (last rs)), s')"
      by simp
    then show "\<exists>s'. list_owned_devices env user_id a s
                 = Some (Inl (ConnectionError (status_code (last rs)) (reason (last rs)) message), s')"
      by (simp add: m)
  }
  {
    assume h: "length rs = 1 \<and> status_code (last rs) \<noteq> 200"
    then obtain r where r: "rs = [r]"
      by (cases rs) auto
    with h assms(2) have "fst (get_laps_password env laps_id s) = Inl (request_failed r)"
      using get_laps_password_failed [OF assms(1), of r laps_id] by simp
    then show "fst (get_laps_password env laps_id s)
            = Inl (ConnectionError (status_code (last rs)) (reason (last rs)) message)"
      using m r by simp
  }
  {
    assume h: "length rs = 1 \<and> status_code (last rs) \<noteq> 204"
    then obtain r where r: "rs = [r]"
      by (cases rs) auto
    with h assms(2) have "fst (delete_device env delete_id s) = Inl (request_failed r)"
      using delete_device_failed [OF assms(1), of r delete_id] by simp
    then show "fst (delete_device env delete_id s)
            = Inl (ConnectionError (status_code (last rs)) (reason (last rs)) message)"
      using m r by simp
  }
qed

theorem failed_request_raises_witness:
  "(\<exists>s'. get_device scripted None (no_args\<lparr>all_arg := True\<rparr>) (ready (map Inr failing_pages))
           = Some (Inl (ConnectionError 429 ''Too Many Requests'' (JStr ''slow down'')), s'))
   \<and> (\<exists>s'. list_owned_devices scripted ''u1'' (no_args\<lparr>all_arg := True\<rparr>)
             (ready (map Inr failing_pages))
           = Some (Inl (ConnectionError 429 ''Too Many Requests'' (JStr ''slow down'')), s'))
   \<and> fst (get_laps_password scripted ''d1''
            (ready [Inr (error_reply 404 ''Not Found'' ''no such device'')]))
       = Inl (ConnectionError 404 ''Not Found'' (JStr ''no such device''))
   \<and> fst (delete_device scripted ''d1''
            (ready [Inr (error_reply 404 ''Not Found'' ''no such device'')]))
       = Inl (ConnectionError 404 ''Not Found'' (JStr ''no such device''))"
proof -
  have a: "answers scripted (world (ready (map Inr rs))) rs" for rs
    by (simp add: ready_def answers_scripted)
  have l: "last failing_pages = error_reply 429 ''Too Many Requests'' ''slow down''"
    by (simp add: failing_pages_def)
  have c: "status_code (error_reply code phrase msg) = code"
    "reason (error_reply code phrase msg) = phrase" for code phrase msg
    by (simp_all add: error_reply_def json_reply_def)
  have m: "error_message (last failing_pages) = Some (JStr ''slow down'')"
    by (simp add: l error_message_error_reply)
  have f: "failing failing_pages \<and> (length failing_pages > 1 \<longrightarrow>
      all_arg (no_args\<lparr>all_arg := True\<rparr>) \<and> top_arg (no_args\<lparr>all_arg := True\<rparr>) = None)"
    by (simp add: failing_failing_pages no_args_def)
  note pages = failed_request_raises [OF get_token_ready a m,
      where a = "no_args\<lparr>all_arg := True\<rparr>" and device_id = None and user_id = "''u1''"]
  from pages [THEN conjunct1] f
  have device: "\<exists>s'. get_device scripted None (no_args\<lparr>all_arg := True\<rparr>)
           (ready (map Inr failing_pages))
         = Some (Inl (ConnectionError 429 ''Too Many Requests'' (JStr ''slow down'')), s')"
    by (simp add: l c)
  from pages [THEN conjunct2, THEN conjunct1] f
  have owned: "\<exists>s'. list_owned_devices scripted ''u1'' (no_args\<lparr>all_arg := True\<rparr>)
           (ready (map Inr failing_pages))
         = Some (Inl (ConnectionError 429 ''Too Many Requests'' (JStr ''slow down'')), s')"
    by (simp add: l c)
  have m1: "error_message (last [error_reply 404 ''Not Found'' ''no such device''])
      = Some (JStr ''no such device'')"
    by (simp add: error_message_error_reply)
  have a1: "answers scripted (world (ready [Inr (error_reply 404 ''Not Found'' ''no such device'')]))
      [error_reply 404 ''Not Found'' ''no such device'']"
    using a [of "[error_reply 404 ''Not Found'' ''no such device'']"] by simp
  note one = failed_request_raises [OF get_token_ready a1 m1,
      where laps_id = "''d1''" and delete_id = "''d1''"]
  from one [THEN conjunct2, THEN conjunct2, THEN conjunct1]
  have laps: "fst (get_laps_password scripted ''d1''
            (ready [Inr (error_reply 404 ''Not Found'' ''no such device'')]))
       = Inl (ConnectionError 404 ''Not Found'' (JStr ''no such device''))"
    by (simp add: c)
  from one [THEN conjunct2, THEN conjunct2, THEN conjunct2]
  have delete: "fst (delete_device scripted ''d1''
            (ready [Inr (error_reply 404 ''Not Found'' ''no such device'')]))
       = Inl (ConnectionError 404 ''Not Found'' (JStr ''no such device''))"
    by (simp add: c)
  from device owned laps delete show ?thesis by blast
qed

text \<open>
  Claim C7. \<^verbatim>\<open>get_device\<close> with a \<^verbatim>\<open>device_id\<close> that is not empty and a \<^verbatim>\<open>filter\<close> or a \<^verbatim>\<open>search\<close> that is not empty raises
  \<^verbatim>\<open>ValueError\<close>, and the state is the one before the call: no token was fetched, no request was
  sent.
\<close>

theorem get_device_mutually_exclusive:
  assumes "truthy_str device_id"
    and "truthy_str (filter_arg a) \<or> truthy_str (search_arg a)"
  shows "get_device env device_id a s = Some (Inl ValueError, s)"
  using assms by (simp add: get_device_def)

theorem get_device_mutually_exclusive_witness:
  "get_device scripted (Some ''x'') (no_args\<lparr>filter_arg := Some ''y''\<rparr>) (empty_state [])
     = Some (Inl ValueError, empty_state [])
   \<and> get_device scripted (Some ''x'') (no_args\<lparr>search_arg := Some ''z''\<rparr>) (empty_state [])
     = Some (Inl ValueError, empty_state [])"
  using get_device_mutually_exclusive [of "Some ''x''" "no_args\<lparr>filter_arg := Some ''y''\<rparr>" scripted "empty_state []"]
    get_device_mutually_exclusive [of "Some ''x''" "no_args\<lparr>search_arg := Some ''z''\<rparr>" scripted "empty_state []"]
  by (simp add: no_args_def)

section \<open>The LAPS password\<close>

lemma b64decode_ascii_pass: "b64decode_ascii ''cGFzcw=='' = Inr ''pass''"
  by code_simp

lemma b64decode_ascii_empty: "b64decode_ascii [] = Inr []"
  by code_simp

text \<open>
  Claim C8. When \<^verbatim>\<open>get_laps_password\<close> receives a 200: if the Content-Type does not contain \<^verbatim>\<open>application/json\<close> it
  returns \<^verbatim>\<open>None\<close>; if it does, and the first entry of \<^verbatim>\<open>credentials\<close> has a \<^verbatim>\<open>passwordBase64\<close>, it returns the decoded
  password (in the example, \<^verbatim>\<open>cGFzcw==\<close> gives \<^verbatim>\<open>pass\<close>).
\<close>

theorem get_laps_password_result:
  assumes "get_token env s = (Inr token, s0)"
    and "http env (laps_request env device_id token) (world s0) = (Inr resp, w')"
    and "status_code resp = 200"
  shows
    "(\<not> contains ''application/json'' (case content_type resp of None \<Rightarrow> [] | Some t \<Rightarrow> t) \<longrightarrow>
        get_laps_password env device_id s
          = (Inr None, s0\<lparr>world := w', sent := sent s0 @ [laps_request env device_id token]\<rparr>))
     \<and> (\<forall>kv cred rest encoded plain.
          contains ''application/json'' (case content_type resp of None \<Rightarrow> [] | Some t \<Rightarrow> t)
          \<and> body resp = Some (JDict kv)
          \<and> map_of kv ''credentials'' = Some (JList (JDict cred # rest))
          \<and> map_of cred ''passwordBase64'' = Some (JStr encoded)
          \<and> b64decode_utf8 env encoded = Inr plain \<longrightarrow>
          get_laps_password env device_id s
            = (Inr (Some plain),
               s0\<lparr>world := w', sent := sent s0 @ [laps_request env device_id token]\<rparr>))"
  using assms
  by (auto simp: get_laps_password_def send_eq dict_get_default_def)

theorem get_laps_password_result_witness:
  "fst (get_laps_password scripted ''d1''
          (ready [Inr \<lparr>status_code = 200, reason = ''OK'',
                       content_type = Some ''text/plain'', body = None\<rparr>]))
     = Inr None
   \<and> fst (get_laps_password scripted ''d1''
          (ready [Inr (laps_reply [(''accountName'', JStr ''Administrator''),
                                   (''passwordBase64'', JStr ''cGFzcw=='')])]))
     = Inr (Some ''pass'')"
proof -
  let ?plain = "\<lparr>status_code = 200, reason = ''OK'',
                  content_type = Some ''text/plain'', body = None\<rparr>"
  let ?json = "laps_reply [(''accountName'', JStr ''Administrator''),
                           (''passwordBase64'', JStr ''cGFzcw=='')]"
  have h: "http scripted q (world (ready [Inr r])) = (Inr r, ([], 1001))" for q r
    by (simp add: ready_def http_scripted)
  have "\<not> contains ''application/json'' (case content_type ?plain of None \<Rightarrow> [] | Some t \<Rightarrow> t)"
    by simp
  from get_laps_password_result [OF get_token_ready h, of ?plain "''d1''", THEN conjunct1,
      rule_format, OF _ this]
  have a: "fst (get_laps_password scripted ''d1'' (ready [Inr ?plain])) = Inr None"
    by simp
  have "contains ''application/json'' (case content_type ?json of None \<Rightarrow> [] | Some t \<Rightarrow> t)
      \<and> body ?json = Some (JDict [(''id'', JStr ''d1''), (''credentials'',
            JList [JDict [(''accountName'', JStr ''Administrator''),
                          (''passwordBase64'', JStr ''cGFzcw=='')]])])
      \<and> map_of [(''id'', JStr ''d1''), (''credentials'',
            JList [JDict [(''accountName'', JStr ''Administrator''),
                          (''passwordBase64'', JStr ''cGFzcw=='')]])] ''credentials''
          = Some (JList (JDict [(''accountName'', JStr ''Administrator''),
                          (''passwordBase64'', JStr ''cGFzcw=='')] # []))
      \<and> map_of [(''accountName'', JStr ''Administrator''),
                (''passwordBase64'', JStr ''cGFzcw=='')] ''passwordBase64''
          = Some (JStr ''cGFzcw=='')
      \<and> b64decode_utf8 scripted ''cGFzcw=='' = Inr ''pass''"
    by (simp add: laps_reply_def json_reply_def scripted_def b64decode_ascii_pass)
  from get_laps_password_result [OF get_token_ready h, of ?json "''d1''", THEN conjunct2,
      rule_format, OF _ this]
  have b: "fst (get_laps_password scripted ''d1'' (ready [Inr ?json])) = Inr (Some ''pass'')"
    by (simp add: laps_reply_def json_reply_def)
  from a b show ?thesis by simp
qed

text \<open>
  Claim C10. When \<^verbatim>\<open>get_laps_password\<close> receives a 200 JSON response whose first entry of \<^verbatim>\<open>credentials\<close> has no \<^verbatim>\<open>passwordBase64\<close>,
  it returns the empty string (the decoding of the empty default), not \<^verbatim>\<open>None\<close>.
\<close>

theorem get_laps_password_missing_field:
  assumes "get_token env s = (Inr token, s0)"
    and "http env (laps_request env device_id token) (world s0) = (Inr resp, w')"
    and "status_code resp = 200"
    and "contains ''application/json'' (case content_type resp of None \<Rightarrow> [] | Some t \<Rightarrow> t)"
    and "body resp = Some (JDict kv)"
    and "map_of kv ''credentials'' = Some (JList (JDict cred # rest))"
    and "map_of cred ''passwordBase64'' = None"
    and "b64decode_utf8 env [] = Inr []"
  shows "get_laps_password env device_id s
           = (Inr (Some []), s0\<lparr>world := w', sent := sent s0 @ [laps_request env device_id token]\<rparr>)"
  using assms
  by (simp add: get_laps_password_def send_eq dict_get_default_def)

theorem get_laps_password_missing_field_witness:
  "fst (get_laps_password scripted ''d1''
          (ready [Inr (laps_reply [(''accountName'', JStr ''Administrator'')])]))
     = Inr (Some [])"
proof -
  have h: "http scripted q (world (ready [Inr r])) = (Inr r, ([], 1001))" for q r
    by (simp add: ready_def http_scripted)
  have d: "b64decode_utf8 scripted [] = Inr []"
    by (simp add: scripted_def b64decode_ascii_empty)
  show ?thesis
    using get_laps_password_missing_field [OF get_token_ready h _ _ _ _ _ d,
        of "laps_reply [(''accountName'', JStr ''Administrator'')]" _
          "[(''accountName'', JStr ''Administrator'')]" "[]" "''d1''"]
    by (simp add: laps_reply_def json_reply_def)
qed

end
